theory Spec2Isabelle
  imports Complex_Main "HOL-Library.Word" "HOL-Library.AList"
begin

unbundle bit_operations_syntax

section \<open>Python values and exceptions\<close>

text \<open>
  The development embeds \<^verbatim>\<open>traceroute.py\<close>. Python integers are \<open>int\<close>, Python floats are
  idealised as \<open>real\<close> (rounding of binary floating point is not modelled), a \<^verbatim>\<open>bytes\<close>
  value is a list of 8-bit words, and a Python \<^verbatim>\<open>str\<close> is a \<open>string\<close>; text outside ASCII
  is written as its UTF-8 bytes. Every exception the source can raise is a value of
  \<open>py_exc\<close>; a function that may raise returns \<open>py_exc + 'a\<close>.
\<close>

type_synonym byte = "8 word"

datatype py_exc =
    StructError
  | ZeroDivisionError
  | ValueError string
  | TracerouteError string
  | OtherError string

section \<open>Packet codec\<close>

subsection \<open>\<^verbatim>\<open>struct.pack\<close> with network byte order\<close>

text \<open>
  \<^verbatim>\<open>struct.pack\<close> raises \<^verbatim>\<open>struct.error\<close> when an integer does not fit the field:
  \<^verbatim>\<open>B\<close> holds 0..255, \<^verbatim>\<open>H\<close> holds 0..65535, \<^verbatim>\<open>I\<close> holds 0..4294967295.
  \<^verbatim>\<open>!d\<close> writes the eight bytes of the IEEE-754 pattern of a float; the pattern of
  \<^verbatim>\<open>time.time()\<close> is an input of the model.
\<close>

definition be_bytes :: "nat \<Rightarrow> int \<Rightarrow> byte list" where
  "be_bytes n v = map (\<lambda>i. word_of_int (drop_bit (8 * i) v)) (rev [0..<n])"

definition pack_B :: "int \<Rightarrow> py_exc + byte list" where
  "pack_B v = (if 0 \<le> v \<and> v \<le> 255 then Inr (be_bytes 1 v) else Inl StructError)"

definition pack_H :: "int \<Rightarrow> py_exc + byte list" where
  "pack_H v = (if 0 \<le> v \<and> v \<le> 65535 then Inr (be_bytes 2 v) else Inl StructError)"

definition pack_I :: "int \<Rightarrow> py_exc + byte list" where
  "pack_I v = (if 0 \<le> v \<and> v \<le> 4294967295 then Inr (be_bytes 4 v) else Inl StructError)"

definition pack_d :: "64 word \<Rightarrow> byte list" where
  "pack_d t = be_bytes 8 (uint t)"

fun pack_seq :: "(py_exc + byte list) list \<Rightarrow> py_exc + byte list" where
  "pack_seq [] = Inr []"
| "pack_seq (f # fs) =
     (case f of
        Inl e \<Rightarrow> Inl e
      | Inr bs \<Rightarrow> (case pack_seq fs of Inl e \<Rightarrow> Inl e | Inr rest \<Rightarrow> Inr (bs @ rest)))"

text \<open>The format strings of the source: \<^verbatim>\<open>!BBHHH\<close>, \<^verbatim>\<open>!BBHH\<close> and \<^verbatim>\<open>!HHHH\<close>.\<close>

definition pack_BBHHH :: "int \<Rightarrow> int \<Rightarrow> int \<Rightarrow> int \<Rightarrow> int \<Rightarrow> py_exc + byte list" where
  "pack_BBHHH a b c d e = pack_seq [pack_B a, pack_B b, pack_H c, pack_H d, pack_H e]"

definition pack_BBHH :: "int \<Rightarrow> int \<Rightarrow> int \<Rightarrow> int \<Rightarrow> py_exc + byte list" where
  "pack_BBHH a b c d = pack_seq [pack_B a, pack_B b, pack_H c, pack_H d]"

definition pack_HHHH :: "int \<Rightarrow> int \<Rightarrow> int \<Rightarrow> int \<Rightarrow> py_exc + byte list" where
  "pack_HHHH a b c d = pack_seq [pack_H a, pack_H b, pack_H c, pack_H d]"

text \<open>
  \<^verbatim>\<open>bytes([random.randint(0, 255) for _ in range(padding_size)])\<close>: the draws of the
  random generator are an input, \<open>rnd i\<close> being the \<open>i\<close>-th draw.
\<close>

definition random_padding :: "(nat \<Rightarrow> byte) \<Rightarrow> int \<Rightarrow> byte list" where
  "random_padding rnd padding_size = map rnd [0..<nat padding_size]"

subsection \<open>\<^verbatim>\<open>calculate_checksum\<close>\<close>

text \<open>
  The loop \<^verbatim>\<open>for i in range(0, len(data), 2)\<close> over the padded data adds the big-endian
  16-bit words to an unbounded Python integer.
\<close>

fun sum_words :: "int \<Rightarrow> byte list \<Rightarrow> int" where
  "sum_words checksum (hi # lo # rest) = sum_words (checksum + (push_bit 8 (uint hi) + uint lo)) rest"
| "sum_words checksum _ = checksum"

definition calculate_checksum :: "byte list \<Rightarrow> int" where
  "calculate_checksum data =
     (let data = (if length data mod 2 \<noteq> 0 then data @ [0] else data);
          checksum = sum_words 0 data;
          checksum = drop_bit 16 checksum + (checksum AND 0xffff);
          checksum = (NOT checksum) AND 0xffff
      in checksum)"

text \<open>
  The checksum as section 4.1 of the specification words it: the 16-bit one's-complement
  sum of the big-endian words (carries out of bit 15 are added back in until the value
  fits 16 bits), complemented.
\<close>

function fold_carries :: "nat \<Rightarrow> nat" where
  "fold_carries s = (if s < 65536 then s else fold_carries (s div 65536 + s mod 65536))"
  by pat_completeness auto
termination
proof (relation "measure id")
  fix s :: nat
  assume big: "\<not> s < 65536"
  define q where "q = s div 65536"
  define r where "r = s mod 65536"
  have split: "s = 65536 * q + r"
    by (simp add: q_def r_def)
  have "0 < q"
    using big by (simp add: q_def div_greater_zero_iff)
  with split have "q + r < s"
    by linarith
  then show "(s div 65536 + s mod 65536, s) \<in> measure id"
    by (simp add: q_def r_def)
qed simp

fun word_list :: "byte list \<Rightarrow> nat list" where
  "word_list (hi # lo # rest) = (unat hi * 256 + unat lo) # word_list rest"
| "word_list [b] = [unat b * 256]"
| "word_list [] = []"

definition ones_complement_checksum :: "byte list \<Rightarrow> int" where
  "ones_complement_checksum data = 65535 - int (fold_carries (sum_list (word_list data)))"

subsection \<open>Packet builders\<close>

definition create_icmp_packet ::
  "int \<Rightarrow> int \<Rightarrow> int \<Rightarrow> 64 word \<Rightarrow> (nat \<Rightarrow> byte) \<Rightarrow> py_exc + byte list" where
  "create_icmp_packet packet_id sequence packet_size now rnd =
     (case pack_BBHHH 8 0 0 packet_id sequence of
        Inl e \<Rightarrow> Inl e
      | Inr header \<Rightarrow>
          (let timestamp = pack_d now;
               padding_size = max 0 (packet_size - int (length header) - int (length timestamp));
               padding = random_padding rnd padding_size;
               data = timestamp @ padding;
               checksum = calculate_checksum (header @ data)
           in case pack_BBHHH 8 0 checksum packet_id sequence of
                Inl e \<Rightarrow> Inl e
              | Inr header \<Rightarrow> Inr (header @ data)))"

definition create_icmpv6_packet ::
  "int \<Rightarrow> int \<Rightarrow> int \<Rightarrow> 64 word \<Rightarrow> (nat \<Rightarrow> byte) \<Rightarrow> py_exc + byte list" where
  "create_icmpv6_packet packet_id sequence packet_size now rnd =
     (let checksum = 0 in
      case pack_BBHH 128 0 checksum sequence of
        Inl e \<Rightarrow> Inl e
      | Inr header \<Rightarrow>
          (let timestamp = pack_d now;
               padding_size = max 0 (packet_size - int (length header) - int (length timestamp));
               padding = random_padding rnd padding_size;
               data = timestamp @ padding
           in case pack_BBHH 128 0 0 sequence of
                Inl e \<Rightarrow> Inl e
              | Inr header \<Rightarrow> Inr (header @ data)))"

definition create_udp_packet ::
  "int \<Rightarrow> int \<Rightarrow> int \<Rightarrow> 64 word \<Rightarrow> (nat \<Rightarrow> byte) \<Rightarrow> py_exc + byte list" where
  "create_udp_packet packet_id port packet_size now rnd =
     (case pack_I packet_id of
        Inl e \<Rightarrow> Inl e
      | Inr packet_id_bytes \<Rightarrow>
          (let timestamp = pack_d now;
               data_size = packet_size - 8;
               padding_size = max 0 (data_size - int (length packet_id_bytes) - int (length timestamp));
               padding = random_padding rnd padding_size;
               data = packet_id_bytes @ timestamp @ padding
           in case pack_HHHH packet_id port (int (length data) + 8) 0 of
                Inl e \<Rightarrow> Inl e
              | Inr udp_header \<Rightarrow> Inr (udp_header @ data)))"

section \<open>Hop records\<close>

text \<open>
  A hop record is a Python dictionary; its values are strings, numbers or \<^verbatim>\<open>None\<close>.
  The dictionary is a record with one optional field for each key the source ever writes;
  \<open>None\<close> in a field is an absent key.
\<close>

datatype pyval = PyNone | PyStr string | PyNum real

record hop_info =
  hi_error :: "string option"
  hi_hop :: "int option"
  hi_ip :: "pyval option"
  hi_hostname :: "string option"
  hi_delay :: "pyval option"
  hi_ttl :: "int option"
  hi_raw_data :: "string option"
  hi_warning :: "string option"

definition no_keys :: hop_info where
  "no_keys = \<lparr>hi_error = None, hi_hop = None, hi_ip = None, hi_hostname = None,
     hi_delay = None, hi_ttl = None, hi_raw_data = None, hi_warning = None\<rparr>"

definition error_info :: "string \<Rightarrow> hop_info" where
  "error_info msg = no_keys\<lparr>hi_error := Some msg\<rparr>"

text \<open>One element of a discovery generator: \<^verbatim>\<open>(hop_info, progress, is_destination)\<close>.\<close>

type_synonym yield = "hop_info \<times> real \<times> bool"

definition y_info :: "yield \<Rightarrow> hop_info" where
  "y_info y = fst y"

definition y_progress :: "yield \<Rightarrow> real" where
  "y_progress y = fst (snd y)"

definition y_dest :: "yield \<Rightarrow> bool" where
  "y_dest y = snd (snd y)"

text \<open>The literals of the source that are not ASCII, as UTF-8.\<close>

definition timeout_zh :: string where
  "timeout_zh = [CHR 0xE8, CHR 0xB6, CHR 0x85, CHR 0xE6, CHR 0x97, CHR 0xB6]"

definition loop_warning_zh :: string where
  "loop_warning_zh = [CHR 0xE6, CHR 0xA3, CHR 0x80, CHR 0xE6, CHR 0xB5, CHR 0x8B, CHR 0xE5, CHR 0x88, CHR 0xB0, CHR 0xE5, CHR 0xBE, CHR 0xAA, CHR 0xE7, CHR 0x8E, CHR 0xAF, CHR 0xE8, CHR 0xB7, CHR 0xAF, CHR 0xE7, CHR 0x94, CHR 0xB1]"

definition trace_failed_zh :: string where
  "trace_failed_zh = [CHR 0xE8, CHR 0xBF, CHR 0xBD, CHR 0xE8, CHR 0xB8, CHR 0xAA, CHR 0xE5, CHR 0xA4, CHR 0xB1, CHR 0xE8, CHR 0xB4, CHR 0xA5, CHR 0x3A, CHR 0x20]"

definition cannot_resolve_zh :: string where
  "cannot_resolve_zh = [CHR 0xE6, CHR 0x97, CHR 0xA0, CHR 0xE6, CHR 0xB3, CHR 0x95, CHR 0xE8, CHR 0xA7, CHR 0xA3, CHR 0xE6, CHR 0x9E, CHR 0x90, CHR 0xE7, CHR 0x9B, CHR 0xAE, CHR 0xE6, CHR 0xA0, CHR 0x87, CHR 0xE5, CHR 0x9C, CHR 0xB0, CHR 0xE5, CHR 0x9D, CHR 0x80]"

text \<open>
  \<^verbatim>\<open>str(e)\<close> of an exception, and \<^verbatim>\<open>str(n)\<close> of an integer. The text of \<^verbatim>\<open>struct.error\<close>
  depends on the format that refused the value (for \<^verbatim>\<open>H\<close> it names the range 0..65535); one
  text stands for all of them here, and no property below reads it.
\<close>

fun exc_str :: "py_exc \<Rightarrow> string" where
  "exc_str StructError = ''argument out of range''"
| "exc_str ZeroDivisionError = ''division by zero''"
| "exc_str (ValueError msg) = msg"
| "exc_str (TracerouteError msg) = msg"
| "exc_str (OtherError msg) = msg"

definition digit_char :: "nat \<Rightarrow> char" where
  "digit_char d = char_of (48 + d)"

fun show_nat :: "nat \<Rightarrow> string" where
  "show_nat n = (if n < 10 then [digit_char n] else show_nat (n div 10) @ [digit_char (n mod 10)])"

definition show_int :: "int \<Rightarrow> string" where
  "show_int i = (if i < 0 then CHR ''-'' # show_nat (nat (- i)) else show_nat (nat i))"

text \<open>
  \<^verbatim>\<open>int(x)\<close> of a float truncates towards zero. Floats are read as reals: where a product
  of doubles falls just below a whole number that the real product reaches, the code
  truncates to one less (\<^verbatim>\<open>int((29 / 50) * 100)\<close> is 57 in Python and 58 over the reals).
\<close>

definition py_int :: "real \<Rightarrow> int" where
  "py_int x = (if 0 \<le> x then \<lfloor>x\<rfloor> else \<lceil>x\<rceil>)"

section \<open>Socket strategies\<close>

text \<open>
  The network, the clock, the random generator and the resolver are inputs.
  \<open>send_receive_packet\<close> is the outcome of the source function of that name for the packet
  sent with hop limit \<open>ttl\<close> in retry \<open>attempt\<close>: no response (the triple of \<^verbatim>\<open>None\<close>),
  a response \<^verbatim>\<open>(addr, delay, icmp_type)\<close>, or an exception.
  \<open>fmt2 x\<close> is Python's \<^verbatim>\<open>f'{x:.2f}'\<close>.
\<close>

datatype probe_result =
    NoResponse
  | Response string real "int option"
  | ProbeRaises py_exc

record net_env =
  socket_raises :: "py_exc option"
  random_id :: "16 word"
  clock :: "nat \<Rightarrow> nat \<Rightarrow> 64 word"
  draws :: "nat \<Rightarrow> nat \<Rightarrow> nat \<Rightarrow> byte"
  send_receive_packet :: "byte list \<Rightarrow> nat \<Rightarrow> nat \<Rightarrow> probe_result"
  set_unicast_hops :: "nat \<Rightarrow> py_exc option"
  reverse_dns :: "string \<Rightarrow> string option"
  fmt2 :: "real \<Rightarrow> string"

datatype strategy = IcmpV4 | IcmpV6 | Udp

text \<open>The packet each strategy builds for \<open>(ttl, attempt)\<close>.\<close>

fun make_packet :: "strategy \<Rightarrow> net_env \<Rightarrow> int \<Rightarrow> int \<Rightarrow> nat \<Rightarrow> nat \<Rightarrow> py_exc + byte list" where
  "make_packet IcmpV4 env packet_size port ttl attempt =
     create_icmp_packet (uint (random_id env)) (int ttl) packet_size
       (clock env ttl attempt) (draws env ttl attempt)"
| "make_packet IcmpV6 env packet_size port ttl attempt =
     create_icmpv6_packet (uint (random_id env)) (int ttl) packet_size
       (clock env ttl attempt) (draws env ttl attempt)"
| "make_packet Udp env packet_size port ttl attempt =
     (let target_port = port + int ttl
      in create_udp_packet (uint (random_id env)) target_port packet_size
           (clock env ttl attempt) (draws env ttl attempt))"

text \<open>
  The retry loop \<^verbatim>\<open>for attempt in range(max_retries)\<close>: it stops at the first attempt whose
  address is truthy (a non-empty string).
\<close>

fun retry_loop ::
  "strategy \<Rightarrow> net_env \<Rightarrow> int \<Rightarrow> int \<Rightarrow> nat \<Rightarrow> nat list \<Rightarrow> py_exc + (string \<times> real) option" where
  "retry_loop s env packet_size port ttl [] = Inr None"
| "retry_loop s env packet_size port ttl (attempt # rest) =
     (case make_packet s env packet_size port ttl attempt of
        Inl e \<Rightarrow> Inl e
      | Inr packet \<Rightarrow>
          (case send_receive_packet env packet ttl attempt of
             ProbeRaises e \<Rightarrow> Inl e
           | NoResponse \<Rightarrow> retry_loop s env packet_size port ttl rest
           | Response addr delay icmp_type \<Rightarrow>
               if addr \<noteq> [] then Inr (Some (addr, delay))
               else retry_loop s env packet_size port ttl rest))"

definition strategy_name :: "strategy \<Rightarrow> string" where
  "strategy_name s = (case s of IcmpV4 \<Rightarrow> ''ICMP'' | IcmpV6 \<Rightarrow> ''ICMPv6'' | Udp \<Rightarrow> ''UDP'')"

text \<open>The handler \<^verbatim>\<open>except Exception as e\<close> of a socket strategy yields one error record.\<close>

definition failure_yield :: "strategy \<Rightarrow> py_exc \<Rightarrow> yield" where
  "failure_yield s e = (error_info (strategy_name s @ trace_failed_zh @ exc_str e), 0, False)"

definition timeout_info :: "nat \<Rightarrow> hop_info" where
  "timeout_info ttl = no_keys\<lparr>hi_hop := Some (int ttl), hi_ip := Some (PyStr ''*''),
     hi_hostname := Some [], hi_delay := Some (PyStr timeout_zh)\<rparr>"

definition reply_info :: "net_env \<Rightarrow> bool \<Rightarrow> nat \<Rightarrow> string \<Rightarrow> real \<Rightarrow> hop_info" where
  "reply_info env resolve_dns ttl hop_ip best_delay =
     no_keys\<lparr>hi_hop := Some (int ttl), hi_ip := Some (PyStr hop_ip),
       hi_hostname := Some (if resolve_dns
                            then (case reverse_dns env hop_ip of Some name \<Rightarrow> name | None \<Rightarrow> hop_ip)
                            else hop_ip),
       hi_delay := Some (PyStr (fmt2 env best_delay @ ''ms''))\<rparr>"

text \<open>
  One pass of the body of \<^verbatim>\<open>for ttl in range(1, max_hops + 1)\<close>. Every pass yields exactly
  one element; the result is that element, the set of visited addresses after the pass,
  and whether the loop goes on to the next \<open>ttl\<close>.
\<close>

definition hop_step ::
  "strategy \<Rightarrow> net_env \<Rightarrow> string \<Rightarrow> int \<Rightarrow> int \<Rightarrow> bool \<Rightarrow> int \<Rightarrow> int \<Rightarrow> string set \<Rightarrow> nat
     \<Rightarrow> yield \<times> string set \<times> bool" where
  "hop_step s env target_ip max_hops packet_size resolve_dns port max_retries visited_ips ttl =
     (case (if s = IcmpV6 then set_unicast_hops env ttl else None) of
        Some e \<Rightarrow> (failure_yield s e, visited_ips, False)
      | None \<Rightarrow>
     (case retry_loop s env packet_size port ttl [0..<nat max_retries] of
        Inl e \<Rightarrow> (failure_yield s e, visited_ips, False)
      | Inr (Some (hop_ip, best_delay)) \<Rightarrow>
          (let hop_info = reply_info env resolve_dns ttl hop_ip best_delay
           in if hop_ip \<in> visited_ips
              then ((hop_info\<lparr>hi_warning := Some loop_warning_zh\<rparr>,
                     of_int (py_int ((of_nat ttl / of_int max_hops) * 100)), False),
                    visited_ips, False)
              else (let visited_ips = insert hop_ip visited_ips;
                        is_destination = (hop_ip = target_ip);
                        progress = min 1 (of_nat ttl / of_int max_hops);
                        progress = (if is_destination then 1 else progress)
                    in ((hop_info, progress, is_destination), visited_ips, \<not> is_destination)))
      | Inr None \<Rightarrow>
          (let hop_info = timeout_info ttl;
               progress = min 1 (of_nat ttl / of_int max_hops)
           in ((hop_info, progress, False), visited_ips, True))))"

fun probe_hops ::
  "strategy \<Rightarrow> net_env \<Rightarrow> string \<Rightarrow> int \<Rightarrow> int \<Rightarrow> bool \<Rightarrow> int \<Rightarrow> int \<Rightarrow> string set \<Rightarrow> nat list
     \<Rightarrow> yield list \<times> string set" where
  "probe_hops s env target_ip max_hops packet_size resolve_dns port max_retries visited_ips [] =
     ([], visited_ips)"
| "probe_hops s env target_ip max_hops packet_size resolve_dns port max_retries visited_ips (ttl # rest) =
     (case hop_step s env target_ip max_hops packet_size resolve_dns port max_retries visited_ips ttl of
        (y, visited_ips, continue) \<Rightarrow>
          if continue
          then (case probe_hops s env target_ip max_hops packet_size resolve_dns port max_retries
                       visited_ips rest of
                  (ys, final) \<Rightarrow> (y # ys, final))
          else ([y], visited_ips))"

text \<open>
  The three generators \<^verbatim>\<open>_icmp_traceroute\<close>, \<^verbatim>\<open>_icmpv6_traceroute\<close> and \<^verbatim>\<open>_udp_traceroute\<close>
  run the same loop; they differ in the socket they open, the packet they build, the
  extra hop-limit option of the IPv6 variant and the prefix of the error text. The
  timeout argument only reaches the socket and is part of the network's answer.
  The result is the list of yielded elements and the final visited set.
\<close>

definition socket_traceroute ::
  "strategy \<Rightarrow> net_env \<Rightarrow> string \<Rightarrow> int \<Rightarrow> int \<Rightarrow> bool \<Rightarrow> int \<Rightarrow> int \<Rightarrow> yield list \<times> string set" where
  "socket_traceroute s env target_ip max_hops packet_size resolve_dns port max_retries =
     (case socket_raises env of
        Some e \<Rightarrow> ([failure_yield s e], {})
      | None \<Rightarrow>
          probe_hops s env target_ip max_hops packet_size resolve_dns port max_retries {}
            [1..<nat (max_hops + 1)])"

definition icmp_traceroute ::
  "net_env \<Rightarrow> string \<Rightarrow> int \<Rightarrow> int \<Rightarrow> bool \<Rightarrow> int \<Rightarrow> int \<Rightarrow> yield list \<times> string set" where
  "icmp_traceroute = socket_traceroute IcmpV4"

definition icmpv6_traceroute ::
  "net_env \<Rightarrow> string \<Rightarrow> int \<Rightarrow> int \<Rightarrow> bool \<Rightarrow> int \<Rightarrow> int \<Rightarrow> yield list \<times> string set" where
  "icmpv6_traceroute = socket_traceroute IcmpV6"

definition udp_traceroute ::
  "net_env \<Rightarrow> string \<Rightarrow> int \<Rightarrow> int \<Rightarrow> bool \<Rightarrow> int \<Rightarrow> int \<Rightarrow> yield list \<times> string set" where
  "udp_traceroute = socket_traceroute Udp"

text \<open>The addresses the network answers from, in any probe.\<close>

definition responders :: "net_env \<Rightarrow> string set" where
  "responders env =
     {addr. \<exists>pkt ttl attempt delay t. send_receive_packet env pkt ttl attempt = Response addr delay t}"

section \<open>The external-tool strategy\<close>

text \<open>
  \<^verbatim>\<open>_windows_tracert\<close> reads the output of the \<^verbatim>\<open>tracert\<close> process line by line. The
  scanning of the text of one line (token split, round-trip tokens, address patterns) is
  taken as done: a line is given by what the scan extracts from it.
  \<^item> \<open>Ignored\<close>: a blank line, a banner, or a line whose first token is not a digit string;
  \<^item> \<open>Unparsed\<close>: the first token passes \<^verbatim>\<open>isdigit()\<close> but \<^verbatim>\<open>int()\<close> rejects it; the line
    counts in \<^verbatim>\<open>current_hop\<close> and yields nothing;
  \<^item> \<open>Hop hop_num ip hostname rtt_values line\<close>: a numbered hop; \<open>ip\<close> is \<open>PyStr ''*''\<close> for
    a line holding a timeout mark, \<open>PyNone\<close> when no address was found.
  The process is "could not be started" (with the handler that catches it) or its lines,
  its return code and its standard error. \<open>fmt1 x\<close> is Python's \<^verbatim>\<open>f"{x:.1f}"\<close>.
\<close>

datatype tracert_line =
    Ignored
  | Unparsed
  | Hop int pyval "string option" "real list" string

datatype tracert_proc =
    SubprocessError string
  | FileNotFound
  | PopenRaises py_exc
  | Started "tracert_line list" int string

record tracert_env =
  tracert_process :: tracert_proc
  fmt1 :: "real \<Rightarrow> string"

definition mean :: "real list \<Rightarrow> real" where
  "mean xs = sum_list xs / of_nat (length xs)"

definition is_space :: "char \<Rightarrow> bool" where
  "is_space c = (c \<in> set [CHR 0x20, CHR 0x09, CHR 0x0A, CHR 0x0B, CHR 0x0C, CHR 0x0D,
                           CHR 0x1C, CHR 0x1D, CHR 0x1E, CHR 0x1F])"

text \<open>The truth value of a Python string: it is not empty.\<close>

definition truthy :: "string \<Rightarrow> bool" where
  "truthy s = (s \<noteq> [])"

definition strip :: "string \<Rightarrow> string" where
  "strip s = rev (dropWhile is_space (rev (dropWhile is_space s)))"

definition tracert_hop_info :: "(real \<Rightarrow> string) \<Rightarrow> int \<Rightarrow> pyval \<Rightarrow> string option \<Rightarrow> real list \<Rightarrow> string \<Rightarrow> hop_info" where
  "tracert_hop_info f hop_num_int ip hostname rtt_values line =
     (let avg_rtt = (if ip = PyStr ''*'' then ''Timeout''
                     else if rtt_values \<noteq> [] then f (mean rtt_values) @ '' ms''
                     else ''Timeout'')
      in no_keys\<lparr>hi_hop := Some hop_num_int, hi_ip := Some ip,
           hi_hostname := Some (case hostname of Some h \<Rightarrow> h | None \<Rightarrow> []),
           hi_delay := Some (PyStr avg_rtt), hi_ttl := Some hop_num_int,
           hi_raw_data := Some line\<rparr>)"

text \<open>
  Loop detection on one hop record: an address other than the timeout mark is flagged
  when already visited, and recorded as visited otherwise.
\<close>

definition mark_loop :: "pyval \<Rightarrow> pyval set \<Rightarrow> hop_info \<Rightarrow> hop_info \<times> pyval set" where
  "mark_loop ip visited_ips hop_info =
     (if ip \<noteq> PyStr ''*'' \<and> ip \<in> visited_ips
      then (hop_info\<lparr>hi_warning := Some ''Routing loop detected''\<rparr>, visited_ips)
      else if ip \<noteq> PyStr ''*'' then (hop_info, insert ip visited_ips)
      else (hop_info, visited_ips))"

text \<open>
  The loop over the lines, with its state \<^verbatim>\<open>current_hop\<close> and \<^verbatim>\<open>visited_ips\<close>. The fourth
  component of the result is the exception that left the loop, if any: the division
  \<^verbatim>\<open>current_hop / max_hops\<close> raises for \<^verbatim>\<open>max_hops = 0\<close>.
\<close>

fun tracert_loop ::
  "(real \<Rightarrow> string) \<Rightarrow> string \<Rightarrow> int \<Rightarrow> nat \<Rightarrow> pyval set \<Rightarrow> tracert_line list
     \<Rightarrow> yield list \<times> nat \<times> pyval set \<times> py_exc option" where
  "tracert_loop f target_ip max_hops current_hop visited_ips [] =
     ([], current_hop, visited_ips, None)"
| "tracert_loop f target_ip max_hops current_hop visited_ips (Ignored # rest) =
     tracert_loop f target_ip max_hops current_hop visited_ips rest"
| "tracert_loop f target_ip max_hops current_hop visited_ips (Unparsed # rest) =
     tracert_loop f target_ip max_hops (current_hop + 1) visited_ips rest"
| "tracert_loop f target_ip max_hops current_hop visited_ips
       (Hop hop_num_int ip hostname rtt_values line # rest) =
     (let current_hop = current_hop + 1
      in case mark_loop ip visited_ips (tracert_hop_info f hop_num_int ip hostname rtt_values line) of
           (hop_info, visited_ips) \<Rightarrow>
             if max_hops = 0 then ([], current_hop, visited_ips, Some ZeroDivisionError)
             else
               (let progress = min 1 (of_nat current_hop / of_int max_hops);
                    is_destination = (ip = PyStr target_ip);
                    progress = (if is_destination then 1 else progress)
                in if is_destination
                   then ([(hop_info, progress, is_destination)], current_hop, visited_ips, None)
                   else (case tracert_loop f target_ip max_hops current_hop visited_ips rest of
                           (ys, final_hop, final_visited, raised) \<Rightarrow>
                             ((hop_info, progress, is_destination) # ys, final_hop, final_visited,
                              raised))))"

text \<open>
  The arguments \<^verbatim>\<open>timeout\<close>, \<^verbatim>\<open>resolve_dns\<close>, \<^verbatim>\<open>debug_mode\<close> and \<^verbatim>\<open>ip_version\<close> only shape the
  command line of the process, whose output is an input here. The result is the list of
  yielded elements and the final visited set.
\<close>

definition windows_tracert :: "tracert_env \<Rightarrow> string \<Rightarrow> int \<Rightarrow> yield list \<times> pyval set" where
  "windows_tracert env target_ip max_hops =
     (case tracert_process env of
        SubprocessError msg \<Rightarrow>
          ([(error_info (''tracert command execution failed: '' @ msg), 0, False)], {})
      | FileNotFound \<Rightarrow>
          ([(error_info ''tracert command not found, please ensure system path is correct'', 0, False)], {})
      | PopenRaises e \<Rightarrow>
          ([(error_info (''Unexpected error in Windows tracert: '' @ exc_str e), 0, False)], {})
      | Started lines return_code stderr \<Rightarrow>
          (case tracert_loop (fmt1 env) target_ip max_hops 0 {} lines of
             (ys, current_hop, visited_ips, raised) \<Rightarrow>
               (case raised of
                  Some e \<Rightarrow>
                    (ys @ [(error_info (''Unexpected error in Windows tracert: '' @ exc_str e), 0, False)],
                     visited_ips)
                | None \<Rightarrow>
                    if (truthy stderr \<or> return_code \<noteq> 0) \<and> current_hop = 0
                    then (ys @ [(error_info (''Windows tracert error (code '' @ show_int return_code
                                   @ ''): '' @ strip stderr), 0, False)], visited_ips)
                    else (ys, visited_ips))))"

section \<open>The discovery entry point\<close>

text \<open>
  A run of the generator \<^verbatim>\<open>traceroute\<close> is the list of the elements it yields, how it
  ends (it returns, or an exception leaves it), and the input/output it started, in order:
  the address lookup, and the strategy that does the probing.
\<close>

datatype addr_family = AF_INET | AF_INET6 | AF_OTHER

datatype resolve_result =
    GaiError string
  | ResolveRaises py_exc
  | Resolved "(addr_family \<times> string) list"

datatype platform = Windows | OtherPlatform

datatype io_event = GetAddrInfo string | RunSocketStrategy strategy | RunTracert

datatype run_end = Returned | Raised py_exc

record trace_env =
  platform_system :: platform
  getaddrinfo :: "string \<Rightarrow> resolve_result"
  net :: net_env
  tracert :: tracert_env
  str_float :: "real \<Rightarrow> string"

record trace_run =
  tr_io :: "io_event list"
  tr_yields :: "yield list"
  tr_end :: run_end

definition ERROR_UNSUPPORTED_PROTOCOL :: "string \<Rightarrow> string" where
  "ERROR_UNSUPPORTED_PROTOCOL p = ''Unsupported protocol: '' @ p"

definition ERROR_INVALID_HOPS :: "string \<Rightarrow> string" where
  "ERROR_INVALID_HOPS h = ''Hops must be between 1 and 255: '' @ h"

definition ERROR_INVALID_TIMEOUT :: "string \<Rightarrow> string" where
  "ERROR_INVALID_TIMEOUT t = ''Timeout must be positive: '' @ t"

definition ERROR_ADDRESS_RESOLUTION :: "string \<Rightarrow> string" where
  "ERROR_ADDRESS_RESOLUTION e = ''Could not resolve target: '' @ e"

text \<open>
  The loop over the results of \<^verbatim>\<open>getaddrinfo\<close>; \<^verbatim>\<open>target_ip\<close> and \<^verbatim>\<open>ip_version\<close> are
  assigned together, so the state is one optional pair.
\<close>

fun select_address ::
  "bool \<Rightarrow> (string \<times> int) option \<Rightarrow> (addr_family \<times> string) list \<Rightarrow> (string \<times> int) option" where
  "select_address ipv6 found [] = found"
| "select_address ipv6 found ((af, sa) # rest) =
     (if ipv6
      then (if af = AF_INET6 then Some (sa, 6)
            else if af = AF_INET \<and> found = None then select_address ipv6 (Some (sa, 4)) rest
            else select_address ipv6 found rest)
      else (if af = AF_INET then Some (sa, 4)
            else if af = AF_INET6 \<and> found = None then select_address ipv6 (Some (sa, 6)) rest
            else select_address ipv6 found rest))"

text \<open>
  The loop that passes on the elements of a socket strategy: an error record becomes a
  raised \<^verbatim>\<open>TracerouteError\<close>, and the loop breaks after the destination.
\<close>

fun forward :: "yield list \<Rightarrow> yield list \<times> run_end" where
  "forward [] = ([], Returned)"
| "forward ((hop_info, progress, is_destination) # rest) =
     (case hi_error hop_info of
        Some msg \<Rightarrow> ([], Raised (TracerouteError msg))
      | None \<Rightarrow>
          if is_destination then ([(hop_info, progress, is_destination)], Returned)
          else (case forward rest of
                  (ys, e) \<Rightarrow> ((hop_info, progress, is_destination) # ys, e)))"

definition run_strategy ::
  "strategy \<Rightarrow> trace_env \<Rightarrow> string \<Rightarrow> string \<Rightarrow> int \<Rightarrow> int \<Rightarrow> bool \<Rightarrow> int \<Rightarrow> int \<Rightarrow> trace_run" where
  "run_strategy s env target target_ip max_hops packet_size resolve_dns port max_retries =
     (case forward (fst (socket_traceroute s (net env) target_ip max_hops packet_size
                           resolve_dns port max_retries)) of
        (ys, e) \<Rightarrow> \<lparr>tr_io = [GetAddrInfo target, RunSocketStrategy s], tr_yields = ys, tr_end = e\<rparr>)"

definition traceroute ::
  "trace_env \<Rightarrow> string \<Rightarrow> int \<Rightarrow> real \<Rightarrow> int \<Rightarrow> bool \<Rightarrow> string \<Rightarrow> int \<Rightarrow> int \<Rightarrow> bool \<Rightarrow> trace_run" where
  "traceroute env target max_hops timeout packet_size resolve_dns protocol port max_retries ipv6 =
     (if protocol \<notin> set [''udp'', ''icmp'', ''tcp'']
      then \<lparr>tr_io = [], tr_yields = [],
             tr_end = Raised (ValueError (ERROR_UNSUPPORTED_PROTOCOL protocol))\<rparr>
      else if max_hops < 1 \<or> max_hops > 255
      then \<lparr>tr_io = [], tr_yields = [],
             tr_end = Raised (ValueError (ERROR_INVALID_HOPS (show_int max_hops)))\<rparr>
      else if timeout \<le> 0
      then \<lparr>tr_io = [], tr_yields = [],
             tr_end = Raised (ValueError (ERROR_INVALID_TIMEOUT (str_float env timeout)))\<rparr>
      else
        (case getaddrinfo env target of
           GaiError msg \<Rightarrow>
             \<lparr>tr_io = [GetAddrInfo target],
              tr_yields = [(error_info (ERROR_ADDRESS_RESOLUTION msg), 0, False)],
              tr_end = Returned\<rparr>
         | ResolveRaises e \<Rightarrow>
             \<lparr>tr_io = [GetAddrInfo target],
              tr_yields = [(error_info (exc_str e), 0, False)],
              tr_end = Returned\<rparr>
         | Resolved results \<Rightarrow>
             (case select_address ipv6 None results of
                None \<Rightarrow>
                  \<lparr>tr_io = [GetAddrInfo target],
                   tr_yields = [(error_info (ERROR_ADDRESS_RESOLUTION cannot_resolve_zh), 0, False)],
                   tr_end = Returned\<rparr>
              | Some (target_ip, ip_version) \<Rightarrow>
                  if platform_system env = Windows
                  then \<lparr>tr_io = [GetAddrInfo target, RunTracert],
                         tr_yields = fst (windows_tracert (tracert env) target_ip max_hops),
                         tr_end = Returned\<rparr>
                  else if protocol = ''icmp''
                  then (if ip_version = 6
                        then run_strategy IcmpV6 env target target_ip max_hops packet_size
                               resolve_dns port max_retries
                        else run_strategy IcmpV4 env target target_ip max_hops packet_size
                               resolve_dns port max_retries)
                  else if protocol = ''udp''
                  then (if ip_version = 6
                        then run_strategy IcmpV6 env target target_ip max_hops packet_size
                               resolve_dns port max_retries
                        else run_strategy Udp env target target_ip max_hops packet_size
                               resolve_dns port max_retries)
                  else \<lparr>tr_io = [GetAddrInfo target],
                         tr_yields = [(error_info (ERROR_UNSUPPORTED_PROTOCOL protocol), 0, False)],
                         tr_end = Returned\<rparr>)))"

section \<open>The MTR aggregator\<close>

text \<open>
  The per-hop dictionary of \<^verbatim>\<open>mtr\<close>. \<^verbatim>\<open>float('inf')\<close>, the initial \<^verbatim>\<open>min_delay\<close>, is \<open>None\<close>
  in \<open>hs_min_delay\<close>. \<^verbatim>\<open>hop_data\<close>, the dictionary from hop numbers to these, is an
  association list in insertion order with distinct keys.
\<close>

record hop_stats =
  hs_hop :: int
  hs_ip :: pyval
  hs_hostname :: string
  hs_delays :: "real list"
  hs_loss_percent :: real
  hs_min_delay :: "real option"
  hs_max_delay :: real
  hs_avg_delay :: real
  hs_std_dev :: real

type_synonym hop_table = "(int \<times> hop_stats) list"

record summary =
  sm_target :: string
  sm_target_ip :: string
  sm_ip_version :: int
  sm_protocol :: string
  sm_cycles_complete :: int
  sm_total_cycles :: int
  sm_total_hops :: int
  sm_summary_text :: string

type_synonym mtr_yield = "summary \<times> real \<times> hop_stats list"

record mtr_run =
  mr_yields :: "mtr_yield list"
  mr_end :: run_end

text \<open>
  The inputs of \<^verbatim>\<open>mtr\<close>: the resolver (asked for one address family), the world each
  cycle's discovery run meets, Python's \<^verbatim>\<open>float\<close> applied to a stripped string
  (\<open>None\<close> when it raises \<^verbatim>\<open>ValueError\<close>), and the library function
  \<^verbatim>\<open>statistics.stdev\<close>, which is called on lists of at least two samples only.
\<close>

record mtr_env =
  mtr_getaddrinfo :: "addr_family \<Rightarrow> string \<Rightarrow> resolve_result"
  cycle_env :: "nat \<Rightarrow> trace_env"
  to_float :: "string \<Rightarrow> real option"
  stdev :: "real list \<Rightarrow> real"

definition DEFAULT_MAX_RETRIES :: int where
  "DEFAULT_MAX_RETRIES = 3"

definition lower_char :: "char \<Rightarrow> char" where
  "lower_char c = (if (65::nat) \<le> of_char c \<and> of_char c \<le> (90::nat)
                   then char_of (of_char c + (32::nat)) else c)"

definition lower :: "string \<Rightarrow> string" where
  "lower s = map lower_char s"

text \<open>\<^verbatim>\<open>'ms' in delay\<close> and \<^verbatim>\<open>delay.split('ms')[0]\<close>.\<close>

fun contains_ms :: "string \<Rightarrow> bool" where
  "contains_ms (c # d # rest) = ((c = CHR ''m'' \<and> d = CHR ''s'') \<or> contains_ms (d # rest))"
| "contains_ms _ = False"

fun before_ms :: "string \<Rightarrow> string" where
  "before_ms (c # d # rest) = (if c = CHR ''m'' \<and> d = CHR ''s'' then [] else c # before_ms (d # rest))"
| "before_ms s = s"

definition new_hop :: "int \<Rightarrow> pyval \<Rightarrow> string \<Rightarrow> hop_stats" where
  "new_hop hop_num hop_ip hostname =
     \<lparr>hs_hop = hop_num, hs_ip = hop_ip, hs_hostname = hostname, hs_delays = [],
      hs_loss_percent = 0, hs_min_delay = None, hs_max_delay = 0, hs_avg_delay = 0,
      hs_std_dev = 0\<rparr>"

definition add_delay :: "real \<Rightarrow> hop_stats \<Rightarrow> hop_stats" where
  "add_delay delay_value hop =
     hop\<lparr>hs_delays := hs_delays hop @ [delay_value],
         hs_min_delay := Some (case hs_min_delay hop of None \<Rightarrow> delay_value
                               | Some m \<Rightarrow> min m delay_value),
         hs_max_delay := max (hs_max_delay hop) delay_value\<rparr>"

text \<open>
  The reads with a default: \<^verbatim>\<open>hop_info.get('hop', -1)\<close>, \<^verbatim>\<open>hop_info.get('ip', '*')\<close>,
  \<^verbatim>\<open>hop_info.get('hostname', '')\<close> and \<^verbatim>\<open>hop_info.get('delay', 'Timeout')\<close>.
\<close>

definition get_hop :: "hop_info \<Rightarrow> int" where
  "get_hop hop_info = (case hi_hop hop_info of Some n \<Rightarrow> n | None \<Rightarrow> - 1)"

definition get_ip :: "hop_info \<Rightarrow> pyval" where
  "get_ip hop_info = (case hi_ip hop_info of Some a \<Rightarrow> a | None \<Rightarrow> PyStr ''*'')"

definition get_hostname :: "hop_info \<Rightarrow> string" where
  "get_hostname hop_info = (case hi_hostname hop_info of Some h \<Rightarrow> h | None \<Rightarrow> [])"

definition get_delay :: "hop_info \<Rightarrow> pyval" where
  "get_delay hop_info = (case hi_delay hop_info of Some d \<Rightarrow> d | None \<Rightarrow> PyStr ''Timeout'')"

text \<open>The body of the loop over the elements of one discovery run.\<close>

definition record_hop :: "(string \<Rightarrow> real option) \<Rightarrow> hop_table \<Rightarrow> hop_info \<Rightarrow> hop_table" where
  "record_hop parse hop_data hop_info =
     (let hop_num = get_hop hop_info;
          hop_ip = get_ip hop_info;
          hop_data = (if map_of hop_data hop_num = None
                      then AList.update hop_num (new_hop hop_num hop_ip (get_hostname hop_info))
                             hop_data
                      else hop_data);
          hop_data = AList.map_entry hop_num
                       (\<lambda>hop. if get_hostname hop_info \<noteq> [] \<and> hs_hostname hop = []
                              then hop\<lparr>hs_hostname := get_hostname hop_info\<rparr> else hop) hop_data;
          delay = get_delay hop_info
      in case delay of
           PyStr s \<Rightarrow>
             if s \<noteq> ''Timeout'' \<and> contains_ms s
             then (case parse (strip (before_ms s)) of
                     Some delay_value \<Rightarrow> AList.map_entry hop_num (add_delay delay_value) hop_data
                   | None \<Rightarrow> hop_data)
             else hop_data
         | PyNum delay_value \<Rightarrow> AList.map_entry hop_num (add_delay delay_value) hop_data
         | PyNone \<Rightarrow> hop_data)"

text \<open>
  The loop over one run's elements; it breaks after the destination. The flag tells
  whether it broke, in which case the end of the run is never reached.
\<close>

fun consume :: "(string \<Rightarrow> real option) \<Rightarrow> hop_table \<Rightarrow> yield list \<Rightarrow> hop_table \<times> bool" where
  "consume parse hop_data [] = (hop_data, False)"
| "consume parse hop_data ((hop_info, progress, is_destination) # rest) =
     (let hop_data = record_hop parse hop_data hop_info
      in if is_destination then (hop_data, True) else consume parse hop_data rest)"

text \<open>The statistics of one hop against \<^verbatim>\<open>total_packets\<close>, which is not zero here.\<close>

definition hop_statistics :: "(real list \<Rightarrow> real) \<Rightarrow> int \<Rightarrow> hop_stats \<Rightarrow> hop_stats" where
  "hop_statistics sd total_packets hop =
     (let received_packets = int (length (hs_delays hop));
          hop = hop\<lparr>hs_loss_percent :=
                      (of_int (total_packets - received_packets) / of_int total_packets) * 100\<rparr>;
          hop = (if hs_delays hop \<noteq> []
                 then hop\<lparr>hs_avg_delay := mean (hs_delays hop),
                          hs_std_dev := (if length (hs_delays hop) > 1 then sd (hs_delays hop)
                                         else 0)\<rparr>
                 else hop\<lparr>hs_avg_delay := 0, hs_std_dev := 0\<rparr>);
          hop = (if hs_min_delay hop = None then hop\<lparr>hs_min_delay := Some 0\<rparr> else hop)
      in hop)"

definition update_statistics :: "(real list \<Rightarrow> real) \<Rightarrow> int \<Rightarrow> hop_table \<Rightarrow> hop_table" where
  "update_statistics sd total_packets hop_data =
     map (\<lambda>(hop_num, hop). (hop_num, hop_statistics sd total_packets hop)) hop_data"

text \<open>\<^verbatim>\<open>[hop_data[hop_num].copy() for hop_num in sorted(hop_data.keys())]\<close>.\<close>

definition snapshot :: "hop_table \<Rightarrow> hop_stats list" where
  "snapshot hop_data = map snd (sort_key fst hop_data)"

text \<open>
  The final pass divides by \<^verbatim>\<open>count\<close>: with \<^verbatim>\<open>count = 0\<close> and a hop in the table the
  division raises.
\<close>

definition final_statistics :: "(real list \<Rightarrow> real) \<Rightarrow> int \<Rightarrow> hop_table \<Rightarrow> py_exc + hop_table" where
  "final_statistics sd count hop_data =
     (if hop_data \<noteq> [] \<and> count = 0 then Inl ZeroDivisionError
      else Inr (update_statistics sd count hop_data))"

definition cycle_summary :: "string \<Rightarrow> string \<Rightarrow> int \<Rightarrow> string \<Rightarrow> int \<Rightarrow> nat \<Rightarrow> hop_stats list \<Rightarrow> summary" where
  "cycle_summary target dest_ip ip_version protocol count cycle all_hops_data =
     \<lparr>sm_target = target, sm_target_ip = dest_ip, sm_ip_version = ip_version,
      sm_protocol = protocol, sm_cycles_complete = int cycle + 1, sm_total_cycles = count,
      sm_total_hops = int (length all_hops_data),
      sm_summary_text = ''MTR to '' @ target @ '' ('' @ dest_ip @ ''), '' @ show_int (int cycle + 1)
                          @ ''/'' @ show_int count @ '' cycles complete''\<rparr>"

definition final_summary :: "string \<Rightarrow> string \<Rightarrow> int \<Rightarrow> string \<Rightarrow> int \<Rightarrow> hop_table \<Rightarrow> summary" where
  "final_summary target dest_ip ip_version protocol count hop_data =
     \<lparr>sm_target = target, sm_target_ip = dest_ip, sm_ip_version = ip_version,
      sm_protocol = protocol, sm_cycles_complete = count, sm_total_cycles = count,
      sm_total_hops = int (length hop_data),
      sm_summary_text = ''MTR to '' @ target @ '' ('' @ dest_ip @ '') complete, ''
                          @ show_int count @ '' cycles performed''\<rparr>"

text \<open>
  The loop \<^verbatim>\<open>for cycle in range(count)\<close>. A cycle whose run raises \<^verbatim>\<open>TracerouteError\<close> is
  skipped by \<^verbatim>\<open>continue\<close>: the records it consumed stay in the table, and no summary is
  yielded for it. Any other exception leaves \<^verbatim>\<open>mtr\<close>.
\<close>

fun mtr_cycles ::
  "mtr_env \<Rightarrow> string \<Rightarrow> string \<Rightarrow> int \<Rightarrow> int \<Rightarrow> int \<Rightarrow> real \<Rightarrow> int \<Rightarrow> bool \<Rightarrow> string \<Rightarrow> int
     \<Rightarrow> hop_table \<Rightarrow> nat list \<Rightarrow> mtr_yield list \<times> (py_exc + hop_table)" where
  "mtr_cycles env target dest_ip ip_version count max_hops timeout packet_size resolve_dns protocol port
     hop_data [] = ([], Inr hop_data)"
| "mtr_cycles env target dest_ip ip_version count max_hops timeout packet_size resolve_dns protocol port
     hop_data (cycle # rest) =
     (let cycle_progress = (of_nat cycle + 1) / of_int count;
          run = traceroute (cycle_env env cycle) dest_ip max_hops timeout packet_size resolve_dns
                  protocol port DEFAULT_MAX_RETRIES (ip_version = 6)
      in case consume (to_float env) hop_data (tr_yields run) of
           (hop_data, broke) \<Rightarrow>
             (case (if broke then Returned else tr_end run) of
                Raised (TracerouteError msg) \<Rightarrow>
                  mtr_cycles env target dest_ip ip_version count max_hops timeout packet_size
                    resolve_dns protocol port hop_data rest
              | Raised e \<Rightarrow> ([], Inl e)
              | Returned \<Rightarrow>
                  (let overall_progress = cycle_progress;
                       hop_data = update_statistics (stdev env) (int cycle + 1) hop_data;
                       all_hops_data = snapshot hop_data;
                       summary = cycle_summary target dest_ip ip_version protocol count cycle
                                   all_hops_data
                   in case mtr_cycles env target dest_ip ip_version count max_hops timeout
                             packet_size resolve_dns protocol port hop_data rest of
                        (ys, r) \<Rightarrow> ((summary, overall_progress, all_hops_data) # ys, r))))"

definition failed_to_resolve :: "string \<Rightarrow> string \<Rightarrow> py_exc" where
  "failed_to_resolve target e =
     TracerouteError (''Failed to resolve target '' @ [CHR 0x27] @ target @ [CHR 0x27] @ '': '' @ e)"

text \<open>
  The address lookup of \<^verbatim>\<open>mtr\<close>: \<^verbatim>\<open>getaddrinfo(...)[0]\<close> for IPv6 when forced, else IPv4
  first and IPv6 when IPv4 raises \<^verbatim>\<open>gaierror\<close>. Every failure is re-raised as
  \<^verbatim>\<open>TracerouteError\<close> by the outer handler.
\<close>

definition first_address :: "string \<Rightarrow> resolve_result \<Rightarrow> py_exc + string" where
  "first_address target r =
     (case r of
        GaiError msg \<Rightarrow> Inl (failed_to_resolve target msg)
      | ResolveRaises e \<Rightarrow> Inl (failed_to_resolve target (exc_str e))
      | Resolved [] \<Rightarrow> Inl (failed_to_resolve target ''list index out of range'')
      | Resolved ((af, sa) # rest) \<Rightarrow> Inr sa)"

definition mtr_resolve :: "mtr_env \<Rightarrow> string \<Rightarrow> bool \<Rightarrow> py_exc + (string \<times> int)" where
  "mtr_resolve env target ipv6 =
     (if ipv6
      then (case first_address target (mtr_getaddrinfo env AF_INET6 target) of
              Inl e \<Rightarrow> Inl e | Inr dest_ip \<Rightarrow> Inr (dest_ip, 6))
      else (case mtr_getaddrinfo env AF_INET target of
              GaiError msg4 \<Rightarrow>
                (case mtr_getaddrinfo env AF_INET6 target of
                   GaiError msg6 \<Rightarrow>
                     Inl (failed_to_resolve target (exc_str (failed_to_resolve target msg6)))
                 | r6 \<Rightarrow> (case first_address target r6 of
                            Inl e \<Rightarrow> Inl e | Inr dest_ip \<Rightarrow> Inr (dest_ip, 6)))
            | r4 \<Rightarrow> (case first_address target r4 of
                       Inl e \<Rightarrow> Inl e | Inr dest_ip \<Rightarrow> Inr (dest_ip, 4))))"

definition mtr ::
  "mtr_env \<Rightarrow> string \<Rightarrow> int \<Rightarrow> int \<Rightarrow> real \<Rightarrow> int \<Rightarrow> bool \<Rightarrow> string \<Rightarrow> int \<Rightarrow> bool \<Rightarrow> mtr_run" where
  "mtr env target count max_hops timeout packet_size resolve_dns protocol port ipv6 =
     (let protocol = lower protocol
      in if protocol \<notin> set [''icmp'', ''tcp'', ''udp'']
         then \<lparr>mr_yields = [], mr_end = Raised (TracerouteError (''Unsupported protocol: '' @ protocol))\<rparr>
         else
           (case mtr_resolve env target ipv6 of
              Inl e \<Rightarrow> \<lparr>mr_yields = [], mr_end = Raised e\<rparr>
            | Inr (dest_ip, ip_version) \<Rightarrow>
                (case mtr_cycles env target dest_ip ip_version count max_hops timeout packet_size
                        resolve_dns protocol port [] [0..<nat count] of
                   (ys, Inl e) \<Rightarrow> \<lparr>mr_yields = ys, mr_end = Raised e\<rparr>
                 | (ys, Inr hop_data) \<Rightarrow>
                     (case final_statistics (stdev env) count hop_data of
                        Inl e \<Rightarrow> \<lparr>mr_yields = ys, mr_end = Raised e\<rparr>
                      | Inr hop_data \<Rightarrow>
                          \<lparr>mr_yields = ys @ [(final_summary target dest_ip ip_version protocol
                                                  count hop_data, 1, snapshot hop_data)],
                           mr_end = Returned\<rparr>))))"

subsection \<open>The records an MTR run has read\<close>

text \<open>
  The hop records the loop of \<^verbatim>\<open>mtr\<close> reads from one discovery run (up to and including
  a destination record), from cycle \<open>cycle\<close>, and from the first \<open>n\<close> cycles.
\<close>

fun taken :: "yield list \<Rightarrow> hop_info list" where
  "taken [] = []"
| "taken ((hop_info, progress, is_destination) # rest) =
     hop_info # (if is_destination then [] else taken rest)"

definition cycle_records ::
  "mtr_env \<Rightarrow> string \<Rightarrow> int \<Rightarrow> int \<Rightarrow> real \<Rightarrow> int \<Rightarrow> bool \<Rightarrow> string \<Rightarrow> int \<Rightarrow> nat
     \<Rightarrow> hop_info list" where
  "cycle_records env dest_ip ip_version max_hops timeout packet_size resolve_dns protocol port cycle =
     taken (tr_yields (traceroute (cycle_env env cycle) dest_ip max_hops timeout packet_size
                         resolve_dns protocol port DEFAULT_MAX_RETRIES (ip_version = 6)))"

definition records_read ::
  "mtr_env \<Rightarrow> string \<Rightarrow> int \<Rightarrow> int \<Rightarrow> real \<Rightarrow> int \<Rightarrow> bool \<Rightarrow> string \<Rightarrow> int \<Rightarrow> nat list
     \<Rightarrow> hop_info list" where
  "records_read env dest_ip ip_version max_hops timeout packet_size resolve_dns protocol port cycles =
     concat (map (cycle_records env dest_ip ip_version max_hops timeout packet_size resolve_dns
                    protocol port) cycles)"

text \<open>
  The address of the first record with hop number \<open>k\<close> among the records read, and the
  first host name that is not empty among the records with hop number \<open>k\<close>.
\<close>

definition first_ip :: "int \<Rightarrow> hop_info list \<Rightarrow> pyval option" where
  "first_ip k seen = map_option get_ip (find (\<lambda>i. get_hop i = k) seen)"

definition first_hostname :: "int \<Rightarrow> hop_info list \<Rightarrow> string" where
  "first_hostname k seen =
     (case find (\<lambda>i. get_hop i = k \<and> get_hostname i \<noteq> []) seen of
        Some i \<Rightarrow> get_hostname i | None \<Rightarrow> [])"

text \<open>
  The table agrees with the records read: its keys are distinct, it has an entry for
  exactly the hop numbers read, and each entry carries its key, the address of the first
  record of that hop number and the first host name that is not empty.
\<close>

definition table_ok :: "hop_table \<Rightarrow> hop_info list \<Rightarrow> bool" where
  "table_ok hop_data seen \<longleftrightarrow>
     distinct (map fst hop_data)
     \<and> (\<forall>k. case map_of hop_data k of
               None \<Rightarrow> first_ip k seen = None
             | Some hop \<Rightarrow> hs_hop hop = k \<and> first_ip k seen = Some (hs_ip hop)
                           \<and> hs_hostname hop = first_hostname k seen)"

section \<open>Concrete inputs\<close>

text \<open>Random draws used in the examples below.\<close>

definition padding_292A :: "nat \<Rightarrow> byte" where
  "padding_292A i = (if i = 0 then 0x29 else 0x2A)"

definition padding_EE :: "nat \<Rightarrow> byte" where
  "padding_EE i = 0xEE"

text \<open>
  Formatters that are right on the delays used below: \<^verbatim>\<open>f'{12.34:.2f}'\<close> is \<^verbatim>\<open>12.34\<close> and
  \<^verbatim>\<open>f"{1.0:.1f}"\<close> is \<^verbatim>\<open>1.0\<close>.
\<close>

definition fmt_two :: "real \<Rightarrow> string" where
  "fmt_two x = (if x = 12.34 then ''12.34'' else ''0.00'')"

definition fmt_one :: "real \<Rightarrow> string" where
  "fmt_one x = (if x = 1 then ''1.0'' else ''0.0'')"

text \<open>
  A network with a routing loop (scenario C of the specification): hop 1 answers from
  10.0.0.1, hop 2 from 10.0.0.2, hop 3 from 10.0.0.1 again.
\<close>

definition loop_net :: net_env where
  "loop_net = \<lparr>socket_raises = None, random_id = 0x1234,
     clock = (\<lambda>ttl attempt. 0x41D954FC40000000), draws = (\<lambda>ttl attempt i. 0xEE),
     send_receive_packet = (\<lambda>packet ttl attempt.
        if ttl = 1 then Response ''10.0.0.1'' 12.34 (Some 11)
        else if ttl = 2 then Response ''10.0.0.2'' 12.34 (Some 11)
        else if ttl = 3 then Response ''10.0.0.1'' 12.34 (Some 11)
        else NoResponse),
     set_unicast_hops = (\<lambda>ttl. None), reverse_dns = (\<lambda>a. None), fmt2 = fmt_two\<rparr>"

text \<open>
  A network where hop 2 never answers (scenario B): hop 1 answers from 10.0.0.1 and
  hop 3 is the target.
\<close>

definition quiet_hop_net :: net_env where
  "quiet_hop_net = \<lparr>socket_raises = None, random_id = 0x1234,
     clock = (\<lambda>ttl attempt. 0x41D954FC40000000), draws = (\<lambda>ttl attempt i. 0xEE),
     send_receive_packet = (\<lambda>packet ttl attempt.
        if ttl = 1 then Response ''10.0.0.1'' 12.34 (Some 11)
        else if ttl = 3 then Response ''93.184.216.34'' 12.34 (Some 0)
        else NoResponse),
     set_unicast_hops = (\<lambda>ttl. None), reverse_dns = (\<lambda>a. None), fmt2 = fmt_two\<rparr>"

text \<open>A network where nothing ever answers.\<close>

definition silent_net :: net_env where
  "silent_net = \<lparr>socket_raises = None, random_id = 0x1234,
     clock = (\<lambda>ttl attempt. 0x41D954FC40000000), draws = (\<lambda>ttl attempt i. 0xEE),
     send_receive_packet = (\<lambda>packet ttl attempt. NoResponse),
     set_unicast_hops = (\<lambda>ttl. None), reverse_dns = (\<lambda>a. None), fmt2 = fmt_two\<rparr>"

text \<open>
  The output of \<^verbatim>\<open>tracert -h 4 -w 3000 -d 93.184.216.34\<close> on a path with the same routing
  loop, and one where every hop times out. In a line such as
  \<^verbatim>\<open>1     1 ms     1 ms     1 ms  10.0.0.1\<close> the scan reads the tokens 1 to 3
  (\<^verbatim>\<open>1\<close>, \<^verbatim>\<open>ms\<close>, \<^verbatim>\<open>1\<close>) as round-trip values, which gives \<^verbatim>\<open>[1.0, 1.0]\<close>.
\<close>

definition looping_tracert :: tracert_env where
  "looping_tracert = \<lparr>tracert_process = Started
       [Ignored,
        Hop 1 (PyStr ''10.0.0.1'') None [1, 1] ''1     1 ms     1 ms     1 ms  10.0.0.1'',
        Hop 2 (PyStr ''10.0.0.2'') None [1, 1] ''2     1 ms     1 ms     1 ms  10.0.0.2'',
        Hop 3 (PyStr ''10.0.0.1'') None [1, 1] ''3     1 ms     1 ms     1 ms  10.0.0.1'',
        Hop 4 (PyStr ''10.0.0.3'') None [1, 1] ''4     1 ms     1 ms     1 ms  10.0.0.3'',
        Ignored]
       0 [],
     fmt1 = fmt_one\<rparr>"

definition silent_tracert :: tracert_env where
  "silent_tracert = \<lparr>tracert_process = Started
       [Ignored,
        Hop 1 (PyStr ''*'') None [] ''1     *        *        *     Request timed out.'',
        Hop 2 (PyStr ''*'') None [] ''2     *        *        *     Request timed out.'',
        Ignored]
       0 [],
     fmt1 = fmt_one\<rparr>"

definition str_float_stub :: "real \<Rightarrow> string" where
  "str_float_stub x = (if x = 0 then ''0.0'' else ''3.0'')"

definition resolves_to_target :: "string \<Rightarrow> resolve_result" where
  "resolves_to_target target = Resolved [(AF_INET, ''93.184.216.34'')]"

definition loop_env :: trace_env where
  "loop_env = \<lparr>platform_system = OtherPlatform, getaddrinfo = resolves_to_target,
     net = loop_net, tracert = looping_tracert, str_float = str_float_stub\<rparr>"

definition windows_loop_env :: trace_env where
  "windows_loop_env = \<lparr>platform_system = Windows, getaddrinfo = resolves_to_target,
     net = loop_net, tracert = looping_tracert, str_float = str_float_stub\<rparr>"

definition quiet_hop_env :: trace_env where
  "quiet_hop_env = \<lparr>platform_system = OtherPlatform, getaddrinfo = resolves_to_target,
     net = quiet_hop_net, tracert = silent_tracert, str_float = str_float_stub\<rparr>"

definition silent_env :: trace_env where
  "silent_env = \<lparr>platform_system = OtherPlatform, getaddrinfo = resolves_to_target,
     net = silent_net, tracert = silent_tracert, str_float = str_float_stub\<rparr>"


text \<open>
  A path whose first hop answers in every cycle but the second (scenario D); hop 2 is
  the target.
\<close>

definition lossy_net :: "nat \<Rightarrow> net_env" where
  "lossy_net cycle = \<lparr>socket_raises = None, random_id = 0x1234,
     clock = (\<lambda>ttl attempt. 0x41D954FC40000000), draws = (\<lambda>ttl attempt i. 0xEE),
     send_receive_packet = (\<lambda>packet ttl attempt.
        if ttl = 1 then (if cycle = 1 then NoResponse else Response ''10.0.0.1'' 12.34 (Some 11))
        else if ttl = 2 then Response ''93.184.216.34'' 12.34 (Some 0)
        else NoResponse),
     set_unicast_hops = (\<lambda>ttl. None), reverse_dns = (\<lambda>a. None), fmt2 = fmt_two\<rparr>"

definition socket_world :: "net_env \<Rightarrow> trace_env" where
  "socket_world n = \<lparr>platform_system = OtherPlatform, getaddrinfo = resolves_to_target,
     net = n, tracert = silent_tracert, str_float = str_float_stub\<rparr>"

definition float_of_text :: "string \<Rightarrow> real option" where
  "float_of_text s = (if s = ''12.34'' then Some 12.34 else None)"

text \<open>The standard deviation of samples that are all equal, as they are below.\<close>

definition stdev_of_equal :: "real list \<Rightarrow> real" where
  "stdev_of_equal xs = 0"

definition resolves_family :: "addr_family \<Rightarrow> string \<Rightarrow> resolve_result" where
  "resolves_family af target = Resolved [(AF_INET, ''93.184.216.34'')]"


definition lossy_env :: mtr_env where
  "lossy_env = \<lparr>mtr_getaddrinfo = resolves_family,
     cycle_env = (\<lambda>cycle. socket_world (lossy_net cycle)), to_float = float_of_text,
     stdev = stdev_of_equal\<rparr>"

text \<open>
  The two MTR runs of the examples: three cycles over the lossy path, two cycles over the
  path that changes.
\<close>

definition lossy_run :: mtr_run where
  "lossy_run = mtr lossy_env ''example.org'' 3 5 3 64 False ''icmp'' 33434 False"


section \<open>Properties of the packet codec\<close>

lemma length_be_bytes: "length (be_bytes n v) = n"
  by (simp add: be_bytes_def)

lemma length_pack_d: "length (pack_d t) = 8"
  by (simp add: pack_d_def length_be_bytes)

lemma length_random_padding: "length (random_padding rnd n) = nat n"
  by (simp add: random_padding_def)

lemma pack_BBHHH_ok:
  assumes "0 \<le> c" "c \<le> 65535" "0 \<le> d" "d \<le> 65535" "0 \<le> e" "e \<le> 65535"
  shows "\<exists>bs. pack_BBHHH 8 0 c d e = Inr bs \<and> length bs = 8"
  using assms by (simp add: pack_BBHHH_def pack_B_def pack_H_def length_be_bytes)

lemma pack_HHHH_ok:
  assumes "0 \<le> a" "a \<le> 65535" "0 \<le> b" "b \<le> 65535" "0 \<le> c" "c \<le> 65535"
  shows "\<exists>bs. pack_HHHH a b c 0 = Inr bs \<and> length bs = 8"
  using assms by (simp add: pack_HHHH_def pack_H_def length_be_bytes)

lemma pack_HHHH_third: "65535 < c \<Longrightarrow> pack_HHHH a b c d = Inl StructError"
  by (simp add: pack_HHHH_def pack_H_def)

lemma calculate_checksum_range:
  "0 \<le> calculate_checksum data \<and> calculate_checksum data \<le> 65535"
proof -
  have "0 \<le> x AND (65535::int)" for x by simp
  moreover have "x AND (65535::int) \<le> 65535" for x by (rule AND_upper2) simp
  ultimately show ?thesis by (simp add: calculate_checksum_def Let_def)
qed

lemma create_icmp_packet_ok:
  assumes "0 \<le> packet_id" "packet_id \<le> 65535" "0 \<le> sequence" "sequence \<le> 65535"
  shows "\<exists>p. create_icmp_packet packet_id sequence packet_size now rnd = Inr p
             \<and> int (length p) = max 16 packet_size"
proof -
  obtain h0 where h0: "pack_BBHHH 8 0 0 packet_id sequence = Inr h0" "length h0 = 8"
    using pack_BBHHH_ok [of 0 packet_id sequence] assms by auto
  define data where "data = pack_d now @ random_padding rnd (max 0 (packet_size - 8 - 8))"
  define cs where "cs = calculate_checksum (h0 @ data)"
  have "0 \<le> cs" "cs \<le> 65535"
    using calculate_checksum_range [of "h0 @ data"] by (simp_all add: cs_def)
  then obtain h1 where h1: "pack_BBHHH 8 0 cs packet_id sequence = Inr h1" "length h1 = 8"
    using pack_BBHHH_ok [of cs packet_id sequence] assms by auto
  have "create_icmp_packet packet_id sequence packet_size now rnd = Inr (h1 @ data)"
    using h0 h1 by (simp add: create_icmp_packet_def Let_def length_pack_d data_def cs_def)
  moreover have "int (length (h1 @ data)) = max 16 packet_size"
    using h1 by (simp add: data_def length_pack_d length_random_padding)
  ultimately show ?thesis by blast
qed

lemma create_udp_packet_ok:
  assumes "0 \<le> packet_id" "packet_id \<le> 65535" "0 \<le> port" "port \<le> 65535"
    and "packet_size \<le> 65535"
  shows "\<exists>p. create_udp_packet packet_id port packet_size now rnd = Inr p
             \<and> int (length p) = max 20 packet_size"
proof -
  define idb where "idb = be_bytes 4 packet_id"
  have idb: "pack_I packet_id = Inr idb" "length idb = 4"
    using assms by (simp_all add: pack_I_def idb_def length_be_bytes)
  define data where
    "data = idb @ pack_d now @ random_padding rnd (max 0 (packet_size - 8 - 4 - 8))"
  have len: "int (length data) + 8 = max 20 packet_size"
    by (simp add: data_def idb length_pack_d length_random_padding)
  then have "0 \<le> int (length data) + 8" "int (length data) + 8 \<le> 65535"
    using assms by simp_all
  then obtain h where h: "pack_HHHH packet_id port (int (length data) + 8) 0 = Inr h" "length h = 8"
    using pack_HHHH_ok [of packet_id port "int (length data) + 8"] assms by blast
  have "create_udp_packet packet_id port packet_size now rnd = Inr (h @ data)"
    using idb h by (simp add: create_udp_packet_def Let_def length_pack_d data_def)
  moreover have "int (length (h @ data)) = max 20 packet_size"
    using h len by simp
  ultimately show ?thesis by blast
qed

lemma create_udp_packet_oversize:
  assumes "65535 < packet_size"
  shows "create_udp_packet packet_id port packet_size now rnd = Inl StructError"
proof (cases "pack_I packet_id")
  case (Inl e)
  then have "e = StructError" by (simp add: pack_I_def split: if_splits)
  with Inl show ?thesis by (simp add: create_udp_packet_def)
next
  case (Inr idb)
  then have idb: "length idb = 4"
    by (auto simp add: pack_I_def length_be_bytes split: if_splits)
  define data where
    "data = idb @ pack_d now @ random_padding rnd (max 0 (packet_size - 8 - 4 - 8))"
  have "65535 < int (length data) + 8"
    using assms by (simp add: data_def idb length_pack_d length_random_padding)
  then have "pack_HHHH packet_id port (int (length data) + 8) 0 = Inl StructError"
    by (rule pack_HHHH_third)
  then show ?thesis
    using Inr idb by (simp add: create_udp_packet_def Let_def length_pack_d data_def)
qed

text \<open>
  Claim C5. \<^verbatim>\<open>calculate_checksum\<close> is meant to return the 16-bit one's-complement
  checksum of the data. It folds the carries only once: on the ICMP echo packet with
  identifier \<open>0xF7FF\<close>, sequence 1, size 18, the time stamp of \<open>1.7e9\<close> and the padding
  bytes \<open>29 2A\<close>, the words add up to \<open>0x1FFFF\<close>; one fold gives \<open>0x10000\<close>, whose
  complement under the 16-bit mask is \<open>0xFFFF\<close>, while the one's-complement checksum
  of the same bytes is \<open>0xFFFE\<close>. The packet carries \<open>FF FF\<close> in its checksum field.
\<close>

theorem calculate_checksum_folds_once:
  "calculate_checksum [8, 0, 0, 0, 0xF7, 0xFF, 0, 1, 0x41, 0xD9, 0x54, 0xFC, 0x40, 0, 0, 0, 0x29, 0x2A]
     = 0xFFFF
   \<and> ones_complement_checksum
       [8, 0, 0, 0, 0xF7, 0xFF, 0, 1, 0x41, 0xD9, 0x54, 0xFC, 0x40, 0, 0, 0, 0x29, 0x2A]
     = 0xFFFE
   \<and> create_icmp_packet 0xF7FF 1 18 0x41D954FC40000000 padding_292A
     = Inr [8, 0, 0xFF, 0xFF, 0xF7, 0xFF, 0, 1, 0x41, 0xD9, 0x54, 0xFC, 0x40, 0, 0, 0, 0x29, 0x2A]"
proof (intro conjI)
  show "calculate_checksum
          [8, 0, 0, 0, 0xF7, 0xFF, 0, 1, 0x41, 0xD9, 0x54, 0xFC, 0x40, 0, 0, 0, 0x29, 0x2A] = 0xFFFF"
    by (simp add: calculate_checksum_def)
  show "ones_complement_checksum
          [8, 0, 0, 0, 0xF7, 0xFF, 0, 1, 0x41, 0xD9, 0x54, 0xFC, 0x40, 0, 0, 0, 0x29, 0x2A] = 0xFFFE"
    by (simp add: ones_complement_checksum_def)
  show "create_icmp_packet 0xF7FF 1 18 0x41D954FC40000000 padding_292A
          = Inr [8, 0, 0xFF, 0xFF, 0xF7, 0xFF, 0, 1, 0x41, 0xD9, 0x54, 0xFC, 0x40, 0, 0, 0, 0x29, 0x2A]"
    by code_simp
qed

text \<open>
  Claim C6, as amended. For an identifier, a sequence number and a port that fit 16 bits
  and a requested size of at least 8, \<^verbatim>\<open>create_icmp_packet\<close> returns a packet of exactly
  the requested size when that is at least 16, and of 16 bytes otherwise; and when the
  requested size is at most 65535, \<^verbatim>\<open>create_udp_packet\<close> returns a packet of exactly the
  requested size when that is at least 20, and of 20 bytes otherwise.
\<close>

theorem packet_builders_length:
  assumes "0 \<le> packet_id" "packet_id \<le> 65535"
    and "0 \<le> sequence" "sequence \<le> 65535"
    and "0 \<le> port" "port \<le> 65535"
    and "8 \<le> requested_size"
  shows "(\<exists>p. create_icmp_packet packet_id sequence requested_size now rnd = Inr p
              \<and> int (length p) = (if 16 \<le> requested_size then requested_size else 16))
       \<and> (requested_size \<le> 65535 \<longrightarrow>
            (\<exists>p. create_udp_packet packet_id port requested_size now rnd = Inr p
                 \<and> int (length p) = (if 20 \<le> requested_size then requested_size else 20)))"
proof (intro conjI impI)
  show "\<exists>p. create_icmp_packet packet_id sequence requested_size now rnd = Inr p
            \<and> int (length p) = (if 16 \<le> requested_size then requested_size else 16)"
    using create_icmp_packet_ok [OF assms(1-4), of requested_size now rnd] by auto
next
  assume "requested_size \<le> 65535"
  then show "\<exists>p. create_udp_packet packet_id port requested_size now rnd = Inr p
                 \<and> int (length p) = (if 20 \<le> requested_size then requested_size else 20)"
    using create_udp_packet_ok [OF assms(1,2,5,6), of requested_size now rnd] by auto
qed

theorem packet_builders_length_witness:
  "(\<exists>p. create_icmp_packet 0x1234 1 64 0 padding_EE = Inr p \<and> int (length p) = 64)
   \<and> (\<exists>p. create_udp_packet 0x1234 33435 64 0 padding_EE = Inr p \<and> int (length p) = 64)"
  using packet_builders_length [of "0x1234" 1 33435 64 0 padding_EE] by simp

text \<open>
  The claim as stated fails: a UDP probe of requested size 65536, with a valid identifier
  and port, raises \<^verbatim>\<open>struct.error\<close>, since its length field does not fit 16 bits.
\<close>

theorem create_udp_packet_raises:
  "create_udp_packet 1 33435 65536 0 padding_EE = Inl StructError"
  by (rule create_udp_packet_oversize) simp

text \<open>
  Claim C7. \<^verbatim>\<open>create_icmpv6_packet\<close> is meant to lay the packet out as the ICMPv4 echo
  packet with type 128: an 8-byte header with the identifier and the sequence number.
  It packs a 6-byte header without the identifier: for identifier \<open>0x1234\<close>, sequence 1
  and size 16 the bytes 4 and 5 hold the sequence number, and the time stamp starts at
  byte 6. The identifier appears nowhere in the packet.
\<close>

theorem create_icmpv6_packet_drops_identifier:
  "create_icmpv6_packet 0x1234 1 16 0x4142434445464748 padding_EE
     = Inr [128, 0, 0, 0, 0, 1, 0x41, 0x42, 0x43, 0x44, 0x45, 0x46, 0x47, 0x48, 0xEE, 0xEE]"
  by code_simp

section \<open>Properties of the discovery strategies\<close>

lemma respondersI:
  "send_receive_packet env pkt ttl attempt = Response addr delay t \<Longrightarrow> addr \<in> responders env"
  unfolding responders_def by blast

lemma retry_loop_reply:
  "retry_loop s env packet_size port ttl attempts = Inr (Some (addr, delay)) \<Longrightarrow> addr \<in> responders env"
proof (induction attempts)
  case Nil
  then show ?case by simp
next
  case (Cons a attempts)
  then show ?case
    by (auto intro: respondersI split: sum.splits probe_result.splits if_splits)
qed

lemma retry_loop_silent:
  assumes "\<forall>a \<in> set attempts. \<exists>pkt. make_packet s env packet_size port ttl a = Inr pkt
             \<and> send_receive_packet env pkt ttl a = NoResponse"
  shows "retry_loop s env packet_size port ttl attempts = Inr None"
  using assms by (induction attempts) auto

lemma make_packet_icmp_ok:
  assumes "ttl \<le> 65535"
  shows "\<exists>pkt. make_packet IcmpV4 env packet_size port ttl attempt = Inr pkt"
proof -
  have "0 \<le> uint (random_id env)" by simp
  moreover have "uint (random_id env) \<le> 65535"
    using uint_lt2p [of "random_id env"] by simp
  moreover have "0 \<le> int ttl" "int ttl \<le> 65535" using assms by simp_all
  ultimately show ?thesis
    using create_icmp_packet_ok [of "uint (random_id env)" "int ttl" packet_size
        "clock env ttl attempt" "draws env ttl attempt"]
    by auto
qed

lemma hop_step_timeout:
  assumes "retry_loop s env packet_size port ttl [0..<nat max_retries] = Inr None"
    and "s = IcmpV6 \<longrightarrow> set_unicast_hops env ttl = None"
  shows "hop_step s env target_ip max_hops packet_size resolve_dns port max_retries visited ttl
         = ((timeout_info ttl, min 1 (of_nat ttl / of_int max_hops), False), visited, True)"
  using assms by (auto simp add: hop_step_def Let_def)

lemma hop_step_visited:
  "hop_step s env target_ip max_hops packet_size resolve_dns port max_retries visited ttl = (y, visited', c)
   \<Longrightarrow> visited' \<subseteq> visited \<union> responders env"
  by (auto simp add: hop_step_def Let_def dest: retry_loop_reply split: option.splits sum.splits if_splits prod.splits)

lemma hop_step_flagged:
  "hop_step s env target_ip max_hops packet_size resolve_dns port max_retries visited ttl = (y, visited', c)
   \<Longrightarrow> hi_warning (y_info y) \<noteq> None \<Longrightarrow> \<exists>a \<in> responders env. hi_ip (y_info y) = Some (PyStr a)"
  by (auto simp add: hop_step_def Let_def y_info_def failure_yield_def error_info_def no_keys_def
       timeout_info_def reply_info_def
       dest: retry_loop_reply split: option.splits sum.splits if_splits prod.splits)

lemma probe_hops_visited:
  "snd (probe_hops s env target_ip max_hops packet_size resolve_dns port max_retries visited ttls)
     \<subseteq> visited \<union> responders env"
proof (induction ttls arbitrary: visited)
  case Nil
  then show ?case by simp
next
  case (Cons ttl ttls)
  obtain y v c where step:
    "hop_step s env target_ip max_hops packet_size resolve_dns port max_retries visited ttl = (y, v, c)"
    by (cases "hop_step s env target_ip max_hops packet_size resolve_dns port max_retries visited ttl") auto
  then have v: "v \<subseteq> visited \<union> responders env" by (rule hop_step_visited)
  show ?case
  proof (cases c)
    case True
    have "snd (probe_hops s env target_ip max_hops packet_size resolve_dns port max_retries v ttls)
            \<subseteq> v \<union> responders env"
      by (rule Cons.IH)
    with v step True show ?thesis by (auto split: prod.splits)
  next
    case False
    with v step show ?thesis by simp
  qed
qed

lemma probe_hops_flagged:
  "y \<in> set (fst (probe_hops s env target_ip max_hops packet_size resolve_dns port max_retries visited ttls))
   \<Longrightarrow> hi_warning (y_info y) \<noteq> None \<Longrightarrow> \<exists>a \<in> responders env. hi_ip (y_info y) = Some (PyStr a)"
proof (induction ttls arbitrary: visited)
  case Nil
  then show ?case by simp
next
  case (Cons ttl ttls)
  obtain y0 v c where step:
    "hop_step s env target_ip max_hops packet_size resolve_dns port max_retries visited ttl = (y0, v, c)"
    by (cases "hop_step s env target_ip max_hops packet_size resolve_dns port max_retries visited ttl") auto
  show ?case
  proof (cases "y = y0")
    case True
    with step Cons.prems(2) show ?thesis by (auto dest: hop_step_flagged)
  next
    case False
    with step Cons.prems(1) have "c"
      and "y \<in> set (fst (probe_hops s env target_ip max_hops packet_size resolve_dns port max_retries v ttls))"
      by (auto split: if_splits prod.splits)
    then show ?thesis using Cons.IH Cons.prems(2) by blast
  qed
qed


lemma probe_hops_all_timeout:
  assumes "\<forall>ttl \<in> set ttls. retry_loop s env packet_size port ttl [0..<nat max_retries] = Inr None"
    and "s = IcmpV6 \<longrightarrow> (\<forall>ttl. set_unicast_hops env ttl = None)"
  shows "probe_hops s env target_ip max_hops packet_size resolve_dns port max_retries visited ttls
         = (map (\<lambda>ttl. (timeout_info ttl, min 1 (of_nat ttl / of_int max_hops), False)) ttls, visited)"
  using assms
proof (induction ttls)
  case Nil
  then show ?case by simp
next
  case (Cons ttl ttls)
  then have "hop_step s env target_ip max_hops packet_size resolve_dns port max_retries visited ttl
         = ((timeout_info ttl, min 1 (of_nat ttl / of_int max_hops), False), visited, True)"
    by (intro hop_step_timeout) auto
  with Cons show ?case by simp
qed

lemma forward_timeouts:
  "forward (map (\<lambda>ttl. (timeout_info ttl, p ttl, False)) ttls)
     = (map (\<lambda>ttl. (timeout_info ttl, p ttl, False)) ttls, Returned)"
  by (induction ttls) (simp_all add: timeout_info_def no_keys_def)

lemma traceroute_all_timeout:
  assumes "platform_system env = OtherPlatform"
    and "getaddrinfo env target = Resolved [(AF_INET, target_ip)]"
    and "1 \<le> max_hops" "max_hops \<le> 255" "0 < timeout"
    and "socket_raises (net env) = None"
    and "\<forall>pkt ttl attempt. send_receive_packet (net env) pkt ttl attempt = NoResponse"
  shows "traceroute env target max_hops timeout packet_size resolve_dns ''icmp'' port max_retries False
         = \<lparr>tr_io = [GetAddrInfo target, RunSocketStrategy IcmpV4],
            tr_yields = map (\<lambda>ttl. (timeout_info ttl, min 1 (of_nat ttl / of_int max_hops), False))
                          [1..<nat (max_hops + 1)],
            tr_end = Returned\<rparr>"
proof -
  have silent: "retry_loop IcmpV4 (net env) packet_size port ttl [0..<nat max_retries] = Inr None"
    if "ttl \<in> set [1..<nat (max_hops + 1)]" for ttl
  proof (rule retry_loop_silent, rule ballI)
    fix a
    from that assms(4) have "ttl \<le> 65535" by auto
    then obtain pkt where "make_packet IcmpV4 (net env) packet_size port ttl a = Inr pkt"
      using make_packet_icmp_ok by blast
    with assms(7) show "\<exists>pkt. make_packet IcmpV4 (net env) packet_size port ttl a = Inr pkt
        \<and> send_receive_packet (net env) pkt ttl a = NoResponse" by simp
  qed
  have run: "socket_traceroute IcmpV4 (net env) target_ip max_hops packet_size resolve_dns port max_retries
      = (map (\<lambda>ttl. (timeout_info ttl, min 1 (of_nat ttl / of_int max_hops), False))
           [1..<nat (max_hops + 1)], {})"
    unfolding socket_traceroute_def using assms(6) silent
    by (simp add: probe_hops_all_timeout)
  show ?thesis
    using assms(1-5) by (simp add: traceroute_def run_strategy_def run forward_timeouts)
qed

lemma mark_loop_star:
  "mark_loop ip visited hop_info = (info, visited') \<Longrightarrow> PyStr ''*'' \<notin> visited
   \<Longrightarrow> PyStr ''*'' \<notin> visited'
      \<and> (ip = PyStr ''*'' \<longrightarrow> hi_warning info = hi_warning hop_info)
      \<and> hi_ip info = hi_ip hop_info"
  by (auto simp add: mark_loop_def split: if_splits)

lemma tracert_loop_star:
  "tracert_loop f target_ip max_hops current_hop visited lines = (ys, n, final, raised)
   \<Longrightarrow> PyStr ''*'' \<notin> visited
   \<Longrightarrow> PyStr ''*'' \<notin> final
       \<and> (\<forall>y \<in> set ys. hi_ip (y_info y) = Some (PyStr ''*'') \<longrightarrow> hi_warning (y_info y) = None)"
proof (induction lines arbitrary: current_hop visited ys n final raised)
  case Nil
  then show ?case by simp
next
  case (Cons l lines)
  show ?case
  proof (cases l)
    case Ignored
    with Cons show ?thesis by simp
  next
    case Unparsed
    with Cons show ?thesis by simp
  next
    case (Hop hop_num_int ip hostname rtt_values line)
    obtain info v where m:
      "mark_loop ip visited (tracert_hop_info f hop_num_int ip hostname rtt_values line) = (info, v)"
      by (cases "mark_loop ip visited (tracert_hop_info f hop_num_int ip hostname rtt_values line)") auto
    from mark_loop_star [OF m Cons.prems(2)]
    have v: "PyStr ''*'' \<notin> v"
      and this_one: "hi_ip info = Some (PyStr ''*'') \<longrightarrow> hi_warning info = None"
      by (auto simp add: tracert_hop_info_def no_keys_def Let_def)
    show ?thesis
    proof (cases "max_hops = 0 \<or> ip = PyStr target_ip")
      case True
      with Cons.prems(1) Hop m v this_one show ?thesis
        by (auto simp add: Let_def y_info_def split: if_splits)
    next
      case False
      obtain ys' n' final' raised' where rest:
        "tracert_loop f target_ip max_hops (current_hop + 1) v lines = (ys', n', final', raised')"
        by (cases "tracert_loop f target_ip max_hops (current_hop + 1) v lines") auto
      from Cons.IH [OF rest v]
      have "PyStr ''*'' \<notin> final'"
        and "\<forall>y \<in> set ys'. hi_ip (y_info y) = Some (PyStr ''*'') \<longrightarrow> hi_warning (y_info y) = None"
        by auto
      with Cons.prems(1) Hop m False rest this_one show ?thesis
        by (auto simp add: Let_def y_info_def)
    qed
  qed
qed

lemma windows_tracert_star:
  "PyStr ''*'' \<notin> snd (windows_tracert env target_ip max_hops)
   \<and> (\<forall>y \<in> set (fst (windows_tracert env target_ip max_hops)).
         hi_ip (y_info y) = Some (PyStr ''*'') \<longrightarrow> hi_warning (y_info y) = None)"
proof (cases "tracert_process env")
  case (Started lines return_code stderr)
  obtain ys n final raised where loop:
    "tracert_loop (fmt1 env) target_ip max_hops 0 {} lines = (ys, n, final, raised)"
    by (cases "tracert_loop (fmt1 env) target_ip max_hops 0 {} lines") auto
  from tracert_loop_star [OF loop]
  have "PyStr ''*'' \<notin> final"
    and "\<forall>y \<in> set ys. hi_ip (y_info y) = Some (PyStr ''*'') \<longrightarrow> hi_warning (y_info y) = None"
    by auto
  with Started loop show ?thesis
    by (auto simp add: windows_tracert_def y_info_def error_info_def no_keys_def split: option.splits)
qed (simp_all add: windows_tracert_def y_info_def error_info_def no_keys_def)


text \<open>
  Claim C1. Every yielded progress value is meant to lie in \<open>[0, 1]\<close>. On the path with
  the routing loop, with \<^verbatim>\<open>max_hops = 5\<close> and the ICMP strategy, the socket loop yields
  the loop record of hop 3 with progress \<^verbatim>\<open>int((ttl / max_hops) * 100)\<close>, that is 60;
  the records before it carry \<open>1/5\<close> and \<open>2/5\<close>.
\<close>

theorem loop_record_progress_is_a_percentage:
  "map y_progress
     (tr_yields (traceroute loop_env ''93.184.216.34'' 5 3 64 False ''icmp'' 33434 3 False))
     = [1 / 5, 2 / 5, 60]"
  by code_simp

text \<open>
  Claim C2. A record marked as a routing loop is meant to be the last of its run. On
  Windows, where the run reads \<^verbatim>\<open>tracert\<close>, the record of hop 3 is marked and the record
  of hop 4 is yielded after it: \<^verbatim>\<open>_windows_tracert\<close> sets the warning and goes on reading,
  where the three socket strategies break out of their loop.
\<close>

theorem windows_run_goes_on_after_loop:
  "map (\<lambda>y. (hi_hop (y_info y), hi_ip (y_info y), hi_warning (y_info y)))
     (tr_yields (traceroute windows_loop_env ''93.184.216.34'' 4 3 64 False ''icmp'' 33434 3 False))
     = [(Some 1, Some (PyStr ''10.0.0.1''), None),
        (Some 2, Some (PyStr ''10.0.0.2''), None),
        (Some 3, Some (PyStr ''10.0.0.1''), Some ''Routing loop detected''),
        (Some 4, Some (PyStr ''10.0.0.3''), None)]"
  by code_simp




text \<open>
  Claim C8, as amended. In the ICMP strategy, when every one of the \<^verbatim>\<open>max_retries\<close>
  attempts for a \<open>ttl\<close> obtains no response, the pass for that \<open>ttl\<close> yields (and raises
  nothing) a record with the hop number, the address \<^verbatim>\<open>*\<close>, an empty host name and the
  delay text of the source, the two Chinese characters for "timeout" (UTF-8
  \<open>E8 B6 85 E6 97 B6\<close>), with progress \<open>min 1 (ttl / max_hops)\<close>; the loop then goes on with
  the next \<open>ttl\<close> and an unchanged set of visited addresses.
\<close>

theorem silent_hop_yields_timeout_record:
  assumes "ttl \<le> 65535"
    and "\<forall>pkt attempt. attempt < nat max_retries
           \<longrightarrow> send_receive_packet env pkt ttl attempt = NoResponse"
  shows "probe_hops IcmpV4 env target_ip max_hops packet_size resolve_dns port max_retries visited
           (ttl # rest)
         = ((\<lparr>hi_error = None, hi_hop = Some (int ttl), hi_ip = Some (PyStr ''*''),
              hi_hostname = Some [],
              hi_delay = Some (PyStr [CHR 0xE8, CHR 0xB6, CHR 0x85, CHR 0xE6, CHR 0x97, CHR 0xB6]),
              hi_ttl = None, hi_raw_data = None, hi_warning = None\<rparr>,
             min 1 (of_nat ttl / of_int max_hops), False)
            # fst (probe_hops IcmpV4 env target_ip max_hops packet_size resolve_dns port max_retries
                     visited rest),
            snd (probe_hops IcmpV4 env target_ip max_hops packet_size resolve_dns port max_retries
                   visited rest))"
proof -
  have "retry_loop IcmpV4 env packet_size port ttl [0..<nat max_retries] = Inr None"
  proof (rule retry_loop_silent, rule ballI)
    fix a
    assume "a \<in> set [0..<nat max_retries]"
    then have a: "a < nat max_retries" by simp
    obtain pkt where "make_packet IcmpV4 env packet_size port ttl a = Inr pkt"
      using make_packet_icmp_ok [OF assms(1)] by blast
    with assms(2) a show "\<exists>pkt. make_packet IcmpV4 env packet_size port ttl a = Inr pkt
        \<and> send_receive_packet env pkt ttl a = NoResponse" by simp
  qed
  then have "hop_step IcmpV4 env target_ip max_hops packet_size resolve_dns port max_retries visited ttl
      = ((timeout_info ttl, min 1 (of_nat ttl / of_int max_hops), False), visited, True)"
    by (intro hop_step_timeout) simp_all
  then show ?thesis
    by (simp add: timeout_info_def timeout_zh_def no_keys_def split: prod.splits)
qed

theorem silent_hop_yields_timeout_record_witness:
  "probe_hops IcmpV4 quiet_hop_net ''93.184.216.34'' 5 64 False 33434 3 {''10.0.0.1''} [2, 3, 4, 5]
     = ((\<lparr>hi_error = None, hi_hop = Some 2, hi_ip = Some (PyStr ''*''),
          hi_hostname = Some [],
          hi_delay = Some (PyStr [CHR 0xE8, CHR 0xB6, CHR 0x85, CHR 0xE6, CHR 0x97, CHR 0xB6]),
          hi_ttl = None, hi_raw_data = None, hi_warning = None\<rparr>,
         2 / 5, False)
        # fst (probe_hops IcmpV4 quiet_hop_net ''93.184.216.34'' 5 64 False 33434 3 {''10.0.0.1''}
                 [3, 4, 5]),
        snd (probe_hops IcmpV4 quiet_hop_net ''93.184.216.34'' 5 64 False 33434 3 {''10.0.0.1''}
               [3, 4, 5]))"
proof -
  have quiet: "\<forall>pkt attempt. attempt < nat 3
      \<longrightarrow> send_receive_packet quiet_hop_net pkt 2 attempt = NoResponse"
    by (simp add: quiet_hop_net_def)
  have small: "(2::nat) \<le> 65535" by simp
  show ?thesis
    using silent_hop_yields_timeout_record [OF small quiet, of "''93.184.216.34''" 5 64 False 33434
        "{''10.0.0.1''}" "[3, 4, 5]"]
    by simp
qed

text \<open>
  The claim as stated fails on the delay text: on the path where hop 2 never answers, the
  ICMP run yields three records, and the delay of the second is not \<^verbatim>\<open>Timeout\<close>.
\<close>

theorem timeout_delay_is_not_Timeout:
  "map (\<lambda>y. hi_delay (y_info y))
     (tr_yields (traceroute quiet_hop_env ''93.184.216.34'' 5 3 64 False ''icmp'' 33434 3 False))
     = [Some (PyStr ''12.34ms''),
        Some (PyStr [CHR 0xE8, CHR 0xB6, CHR 0x85, CHR 0xE6, CHR 0x97, CHR 0xB6]),
        Some (PyStr ''12.34ms'')]
   \<and> [CHR 0xE8, CHR 0xB6, CHR 0x85, CHR 0xE6, CHR 0x97, CHR 0xB6] \<noteq> ''Timeout''"
  by code_simp

text \<open>
  Claim C10. Provided no answer ever carries the text \<^verbatim>\<open>*\<close> as its address: in a run of
  a socket strategy the text \<^verbatim>\<open>*\<close> is not in the set of visited addresses, and no record
  with the address \<^verbatim>\<open>*\<close> carries the loop warning; the same holds for a run that reads
  \<^verbatim>\<open>tracert\<close>; and a run of \<^verbatim>\<open>traceroute\<close> with the ICMP strategy in which no probe is
  answered yields exactly \<^verbatim>\<open>max_hops\<close> records, each with the address \<^verbatim>\<open>*\<close> and none with
  the loop warning, and returns.
\<close>

theorem no_reply_never_feeds_loop_detection:
  assumes "\<forall>pkt ttl attempt delay t.
             send_receive_packet (net env) pkt ttl attempt \<noteq> Response ''*'' delay t"
  shows "''*'' \<notin> snd (socket_traceroute s (net env) target_ip max_hops packet_size resolve_dns port
                         max_retries)
       \<and> (\<forall>y \<in> set (fst (socket_traceroute s (net env) target_ip max_hops packet_size resolve_dns
                            port max_retries)).
             hi_ip (y_info y) = Some (PyStr ''*'') \<longrightarrow> hi_warning (y_info y) = None)
       \<and> PyStr ''*'' \<notin> snd (windows_tracert (tracert env) target_ip max_hops)
       \<and> (\<forall>y \<in> set (fst (windows_tracert (tracert env) target_ip max_hops)).
             hi_ip (y_info y) = Some (PyStr ''*'') \<longrightarrow> hi_warning (y_info y) = None)
       \<and> (platform_system env = OtherPlatform
            \<and> getaddrinfo env target = Resolved [(AF_INET, target_ip)]
            \<and> 1 \<le> max_hops \<and> max_hops \<le> 255 \<and> 0 < timeout
            \<and> socket_raises (net env) = None
            \<and> (\<forall>pkt ttl attempt. send_receive_packet (net env) pkt ttl attempt = NoResponse)
          \<longrightarrow> length (tr_yields (traceroute env target max_hops timeout packet_size resolve_dns
                                   ''icmp'' port max_retries False)) = nat max_hops
              \<and> (\<forall>y \<in> set (tr_yields (traceroute env target max_hops timeout packet_size
                                         resolve_dns ''icmp'' port max_retries False)).
                    hi_ip (y_info y) = Some (PyStr ''*'') \<and> hi_warning (y_info y) = None)
              \<and> tr_end (traceroute env target max_hops timeout packet_size resolve_dns
                           ''icmp'' port max_retries False) = Returned)"
proof -
  have star: "''*'' \<notin> responders (net env)"
    using assms by (auto simp add: responders_def)
  have visited: "''*'' \<notin> snd (socket_traceroute s (net env) target_ip max_hops packet_size
                                 resolve_dns port max_retries)"
  proof (cases "socket_raises (net env)")
    case None
    then show ?thesis
      using probe_hops_visited [of s "net env" target_ip max_hops packet_size resolve_dns port
          max_retries "{}" "[1..<nat (max_hops + 1)]"] star
      by (auto simp add: socket_traceroute_def)
  next
    case (Some e)
    then show ?thesis by (simp add: socket_traceroute_def)
  qed
  have flagged: "\<forall>y \<in> set (fst (socket_traceroute s (net env) target_ip max_hops packet_size
                                   resolve_dns port max_retries)).
      hi_ip (y_info y) = Some (PyStr ''*'') \<longrightarrow> hi_warning (y_info y) = None"
  proof (cases "socket_raises (net env)")
    case None
    show ?thesis
    proof (intro ballI impI)
      fix y
      assume y: "y \<in> set (fst (socket_traceroute s (net env) target_ip max_hops packet_size
                                   resolve_dns port max_retries))"
        and ip: "hi_ip (y_info y) = Some (PyStr ''*'')"
      show "hi_warning (y_info y) = None"
      proof (rule ccontr)
        assume "hi_warning (y_info y) \<noteq> None"
        with y None obtain a where "a \<in> responders (net env)" "hi_ip (y_info y) = Some (PyStr a)"
          using probe_hops_flagged [of y s "net env" target_ip max_hops packet_size resolve_dns port
              max_retries "{}" "[1..<nat (max_hops + 1)]"]
          by (auto simp add: socket_traceroute_def)
        with ip star show False by simp
      qed
    qed
  next
    case (Some e)
    then show ?thesis
      by (simp add: socket_traceroute_def failure_yield_def y_info_def error_info_def no_keys_def)
  qed
  have silent: "length (tr_yields (traceroute env target max_hops timeout packet_size resolve_dns
                                   ''icmp'' port max_retries False)) = nat max_hops
              \<and> (\<forall>y \<in> set (tr_yields (traceroute env target max_hops timeout packet_size
                                         resolve_dns ''icmp'' port max_retries False)).
                    hi_ip (y_info y) = Some (PyStr ''*'') \<and> hi_warning (y_info y) = None)
              \<and> tr_end (traceroute env target max_hops timeout packet_size resolve_dns
                           ''icmp'' port max_retries False) = Returned"
    if "platform_system env = OtherPlatform
            \<and> getaddrinfo env target = Resolved [(AF_INET, target_ip)]
            \<and> 1 \<le> max_hops \<and> max_hops \<le> 255 \<and> 0 < timeout
            \<and> socket_raises (net env) = None
            \<and> (\<forall>pkt ttl attempt. send_receive_packet (net env) pkt ttl attempt = NoResponse)"
  proof -
    from that have "traceroute env target max_hops timeout packet_size resolve_dns ''icmp'' port
        max_retries False
      = \<lparr>tr_io = [GetAddrInfo target, RunSocketStrategy IcmpV4],
         tr_yields = map (\<lambda>ttl. (timeout_info ttl, min 1 (of_nat ttl / of_int max_hops), False))
                       [1..<nat (max_hops + 1)],
         tr_end = Returned\<rparr>"
      by (intro traceroute_all_timeout) simp_all
    moreover have "nat (max_hops + 1) - 1 = nat max_hops"
      using that by simp
    ultimately show ?thesis
      by (simp add: y_info_def timeout_info_def no_keys_def)
  qed
  from visited flagged windows_tracert_star [of "tracert env" target_ip max_hops] silent
  show ?thesis by blast
qed

theorem no_reply_never_feeds_loop_detection_witness:
  "''*'' \<notin> snd (socket_traceroute IcmpV4 (net silent_env) ''93.184.216.34'' 3 64 False 33434 3)
   \<and> PyStr ''*'' \<notin> snd (windows_tracert (tracert silent_env) ''93.184.216.34'' 3)
   \<and> length (tr_yields (traceroute silent_env ''93.184.216.34'' 3 3 64 False ''icmp'' 33434 3 False))
       = nat 3
   \<and> tr_end (traceroute silent_env ''93.184.216.34'' 3 3 64 False ''icmp'' 33434 3 False) = Returned"
proof -
  have no_star: "\<forall>pkt ttl attempt delay t.
      send_receive_packet (net silent_env) pkt ttl attempt \<noteq> Response ''*'' delay t"
    by (simp add: silent_env_def silent_net_def)
  have run: "platform_system silent_env = OtherPlatform
      \<and> getaddrinfo silent_env ''93.184.216.34'' = Resolved [(AF_INET, ''93.184.216.34'')]
      \<and> (1::int) \<le> 3 \<and> (3::int) \<le> 255 \<and> (0::real) < 3
      \<and> socket_raises (net silent_env) = None
      \<and> (\<forall>pkt ttl attempt. send_receive_packet (net silent_env) pkt ttl attempt = NoResponse)"
    by (simp add: silent_env_def silent_net_def resolves_to_target_def)
  show ?thesis
    using no_reply_never_feeds_loop_detection [OF no_star, of IcmpV4 "''93.184.216.34''" 3 64 False
        33434 3 "''93.184.216.34''" 3] run
    by blast
qed

section \<open>Properties of the MTR aggregator\<close>

subsection \<open>The hop table and the records read\<close>

lemma find_append_cases:
  "find P (xs @ ys) = (case find P xs of None \<Rightarrow> find P ys | Some x \<Rightarrow> Some x)"
  by (induction xs) auto

lemma first_ip_snoc:
  "first_ip k (seen @ [i]) =
     (case first_ip k seen of Some a \<Rightarrow> Some a
      | None \<Rightarrow> if get_hop i = k then Some (get_ip i) else None)"
  by (simp add: first_ip_def find_append_cases split: option.splits)

lemma first_hostname_snoc:
  "first_hostname k (seen @ [i]) =
     (if first_hostname k seen \<noteq> [] then first_hostname k seen
      else if get_hop i = k then get_hostname i else [])"
  by (auto simp add: first_hostname_def find_append_cases split: option.splits dest: find_Some_iff [THEN iffD1])

lemma find_stronger_None:
  "find P xs = None \<Longrightarrow> find (\<lambda>x. P x \<and> Q x) xs = None"
  by (induction xs) (auto split: if_splits)

lemma first_hostname_absent:
  "first_ip k seen = None \<Longrightarrow> first_hostname k seen = []"
  by (simp add: first_ip_def first_hostname_def find_stronger_None)

lemma record_hop_other:
  "k \<noteq> get_hop i \<Longrightarrow> map_of (record_hop parse tbl i) k = map_of tbl k"
  by (simp add: record_hop_def Let_def map_of_map_entry update_conv'
        split: pyval.splits option.splits)

lemma record_hop_new:
  assumes "map_of tbl (get_hop i) = None"
  shows "\<exists>h. map_of (record_hop parse tbl i) (get_hop i) = Some h \<and> hs_hop h = get_hop i
           \<and> hs_ip h = get_ip i \<and> hs_hostname h = get_hostname i"
  using assms
  by (simp add: record_hop_def Let_def map_of_map_entry update_conv' new_hop_def add_delay_def
        split: pyval.splits option.splits)

lemma record_hop_old:
  assumes "map_of tbl (get_hop i) = Some h0"
  shows "\<exists>h. map_of (record_hop parse tbl i) (get_hop i) = Some h \<and> hs_hop h = hs_hop h0
           \<and> hs_ip h = hs_ip h0
           \<and> hs_hostname h = (if get_hostname i \<noteq> [] \<and> hs_hostname h0 = [] then get_hostname i
                               else hs_hostname h0)"
  using assms
  by (simp add: record_hop_def Let_def map_of_map_entry update_conv' add_delay_def
        split: pyval.splits option.splits)

lemma record_hop_distinct:
  "distinct (map fst tbl) \<Longrightarrow> distinct (map fst (record_hop parse tbl i))"
  by (simp add: record_hop_def Let_def distinct_map_entry distinct_update
        split: pyval.splits option.splits)

lemma table_ok_record:
  assumes "table_ok tbl seen"
  shows "table_ok (record_hop parse tbl i) (seen @ [i])"
  unfolding table_ok_def
proof (intro conjI allI)
  show "distinct (map fst (record_hop parse tbl i))"
    using assms by (simp add: table_ok_def record_hop_distinct)
next
  fix k
  from assms have old: "case map_of tbl k of None \<Rightarrow> first_ip k seen = None
        | Some hop \<Rightarrow> hs_hop hop = k \<and> first_ip k seen = Some (hs_ip hop)
                      \<and> hs_hostname hop = first_hostname k seen"
    by (simp add: table_ok_def)
  show "case map_of (record_hop parse tbl i) k of
          None \<Rightarrow> first_ip k (seen @ [i]) = None
        | Some hop \<Rightarrow> hs_hop hop = k \<and> first_ip k (seen @ [i]) = Some (hs_ip hop)
                      \<and> hs_hostname hop = first_hostname k (seen @ [i])"
  proof (cases "k = get_hop i")
    case False
    with old show ?thesis
      by (simp add: record_hop_other first_ip_snoc first_hostname_snoc split: option.splits)
  next
    case True
    show ?thesis
    proof (cases "map_of tbl k")
      case None
      with True obtain h where "map_of (record_hop parse tbl i) k = Some h" "hs_hop h = k"
          "hs_ip h = get_ip i" "hs_hostname h = get_hostname i"
        using record_hop_new [of tbl i parse] by auto
      moreover from None old have "first_ip k seen = None" by simp
      moreover from this have "first_hostname k seen = []" by (rule first_hostname_absent)
      ultimately show ?thesis
        using True by (simp add: first_ip_snoc first_hostname_snoc)
    next
      case (Some h0)
      with True obtain h where "map_of (record_hop parse tbl i) k = Some h" "hs_hop h = hs_hop h0"
          "hs_ip h = hs_ip h0"
          "hs_hostname h = (if get_hostname i \<noteq> [] \<and> hs_hostname h0 = [] then get_hostname i
                               else hs_hostname h0)"
        using record_hop_old [of tbl i h0 parse] by auto
      moreover from Some old have "hs_hop h0 = k" "first_ip k seen = Some (hs_ip h0)"
          "hs_hostname h0 = first_hostname k seen" by simp_all
      ultimately show ?thesis
        using True by (simp add: first_ip_snoc first_hostname_snoc)
    qed
  qed
qed

lemma table_ok_consume:
  "table_ok tbl seen \<Longrightarrow> table_ok (fst (consume parse tbl ys)) (seen @ taken ys)"
proof (induction ys arbitrary: tbl seen)
  case Nil
  then show ?case by simp
next
  case (Cons y ys)
  obtain i p d where y: "y = (i, p, d)" by (cases y) auto
  have step: "table_ok (record_hop parse tbl i) (seen @ [i])"
    using Cons.prems by (rule table_ok_record)
  show ?case
  proof (cases d)
    case True
    with y step show ?thesis by (simp add: Let_def)
  next
    case False
    from Cons.IH [OF step]
    have "table_ok (fst (consume parse (record_hop parse tbl i) ys)) ((seen @ [i]) @ taken ys)" .
    with y False show ?thesis by (simp add: Let_def)
  qed
qed

lemma map_of_update_statistics:
  "map_of (update_statistics sd n tbl) k = map_option (hop_statistics sd n) (map_of tbl k)"
  by (induction tbl) (auto simp add: update_statistics_def)

lemma keys_update_statistics: "map fst (update_statistics sd n tbl) = map fst tbl"
  by (induction tbl) (auto simp add: update_statistics_def)

lemma hop_statistics_identity:
  "hs_hop (hop_statistics sd n h) = hs_hop h \<and> hs_ip (hop_statistics sd n h) = hs_ip h
   \<and> hs_hostname (hop_statistics sd n h) = hs_hostname h
   \<and> hs_delays (hop_statistics sd n h) = hs_delays h"
  by (simp add: hop_statistics_def Let_def)

lemma table_ok_update_statistics:
  assumes "table_ok tbl seen"
  shows "table_ok (update_statistics sd n tbl) seen"
  unfolding table_ok_def
proof (intro conjI allI)
  show "distinct (map fst (update_statistics sd n tbl))"
    using assms by (simp add: table_ok_def keys_update_statistics)
next
  fix k
  from assms have old: "case map_of tbl k of None \<Rightarrow> first_ip k seen = None
        | Some hop \<Rightarrow> hs_hop hop = k \<and> first_ip k seen = Some (hs_ip hop)
                      \<and> hs_hostname hop = first_hostname k seen"
    by (simp add: table_ok_def)
  then show "case map_of (update_statistics sd n tbl) k of
          None \<Rightarrow> first_ip k seen = None
        | Some hop \<Rightarrow> hs_hop hop = k \<and> first_ip k seen = Some (hs_ip hop)
                      \<and> hs_hostname hop = first_hostname k seen"
    by (cases "map_of tbl k") (simp_all add: map_of_update_statistics hop_statistics_identity)
qed

lemma hop_statistics_values:
  "hs_loss_percent (hop_statistics sd n h)
     = 100 * (of_int n - of_nat (length (hs_delays h))) / of_int n
   \<and> hs_avg_delay (hop_statistics sd n h)
     = (if hs_delays h = [] then 0 else sum_list (hs_delays h) / of_nat (length (hs_delays h)))
   \<and> (length (hs_delays h) \<le> 1 \<longrightarrow> hs_std_dev (hop_statistics sd n h) = 0)"
  by (auto simp add: hop_statistics_def Let_def mean_def)


lemma records_read_Cons:
  "records_read env dest_ip ip_version max_hops timeout packet_size resolve_dns protocol port (c # cs)
     = cycle_records env dest_ip ip_version max_hops timeout packet_size resolve_dns protocol port c
       @ records_read env dest_ip ip_version max_hops timeout packet_size resolve_dns protocol port cs"
  by (simp add: records_read_def)

lemma mtr_cycles_yields:
  assumes "table_ok tbl seen"
  shows "(\<forall>y \<in> set (fst (mtr_cycles env target dest_ip ip_version count max_hops timeout packet_size resolve_dns protocol port tbl cs)).
            \<exists>cs1 c cs2 table. cs = cs1 @ c # cs2
              \<and> table_ok table (seen @ records_read env dest_ip ip_version max_hops timeout packet_size resolve_dns protocol port (cs1 @ [c]))
              \<and> y = (cycle_summary target dest_ip ip_version protocol count c
                        (snapshot (update_statistics (stdev env) (int c + 1) table)),
                      (of_nat c + 1) / of_int count,
                      snapshot (update_statistics (stdev env) (int c + 1) table)))
       \<and> (\<forall>final. snd (mtr_cycles env target dest_ip ip_version count max_hops timeout packet_size resolve_dns protocol port tbl cs) = Inr final
            \<longrightarrow> table_ok final (seen @ records_read env dest_ip ip_version max_hops timeout packet_size resolve_dns protocol port cs))"
  using assms
proof (induction cs arbitrary: tbl seen)
  case Nil
  then show ?case by (simp add: records_read_def)
next
  case (Cons c cs)
  let ?run = "traceroute (cycle_env env c) dest_ip max_hops timeout packet_size resolve_dns
                protocol port DEFAULT_MAX_RETRIES (ip_version = 6)"
  let ?seen1 = "seen @ cycle_records env dest_ip ip_version max_hops timeout packet_size resolve_dns protocol port c"
  let ?shape = "\<lambda>c table. (cycle_summary target dest_ip ip_version protocol count c
                        (snapshot (update_statistics (stdev env) (int c + 1) table)),
                      (of_nat c + 1) / of_int count,
                      snapshot (update_statistics (stdev env) (int c + 1) table))"
  let ?P = "\<lambda>y. \<exists>cs1 c' cs2 table. c # cs = cs1 @ c' # cs2
              \<and> table_ok table (seen @ records_read env dest_ip ip_version max_hops timeout packet_size resolve_dns protocol port (cs1 @ [c'])) \<and> y = ?shape c' table"
  let ?Q = "\<lambda>y. \<exists>cs1 c' cs2 table. cs = cs1 @ c' # cs2
              \<and> table_ok table (?seen1 @ records_read env dest_ip ip_version max_hops timeout packet_size resolve_dns protocol port (cs1 @ [c'])) \<and> y = ?shape c' table"
  obtain tbl1 broke where cons: "consume (to_float env) tbl (tr_yields ?run) = (tbl1, broke)"
    by (cases "consume (to_float env) tbl (tr_yields ?run)") auto
  have ok1: "table_ok tbl1 ?seen1"
    using table_ok_consume [OF Cons.prems, of "to_float env" "tr_yields ?run"] cons
    by (simp add: cycle_records_def)
  have lift: "?P y" if "?Q y" for y :: mtr_yield
  proof -
    from that obtain cs1 c' cs2 table where w: "cs = cs1 @ c' # cs2"
      "table_ok table (?seen1 @ records_read env dest_ip ip_version max_hops timeout packet_size resolve_dns protocol port (cs1 @ [c']))" "y = ?shape c' table"
      by blast
    have "c # cs = (c # cs1) @ c' # cs2" using w(1) by simp
    moreover have "table_ok table (seen @ records_read env dest_ip ip_version max_hops timeout packet_size resolve_dns protocol port ((c # cs1) @ [c']))"
      using w(2) by (simp add: records_read_Cons)
    ultimately show ?thesis using w(3) by blast
  qed
  have final_lift: "table_ok final (seen @ records_read env dest_ip ip_version max_hops timeout packet_size resolve_dns protocol port (c # cs))"
    if "table_ok final (?seen1 @ records_read env dest_ip ip_version max_hops timeout packet_size resolve_dns protocol port cs)" for final
    using that by (simp add: records_read_Cons)
  show ?case
  proof (cases "if broke then Returned else tr_end ?run")
    case Returned
    let ?tbl2 = "update_statistics (stdev env) (int c + 1) tbl1"
    have ok2: "table_ok ?tbl2 ?seen1"
      using ok1 by (rule table_ok_update_statistics)
    obtain ys r where rest: "mtr_cycles env target dest_ip ip_version count max_hops timeout packet_size resolve_dns protocol port ?tbl2 cs = (ys, r)"
      by (cases "mtr_cycles env target dest_ip ip_version count max_hops timeout packet_size resolve_dns protocol port ?tbl2 cs") auto
    have eq: "mtr_cycles env target dest_ip ip_version count max_hops timeout packet_size resolve_dns protocol port tbl (c # cs) = (?shape c tbl1 # ys, r)"
      using cons Returned rest by (simp add: Let_def)
    from Cons.IH [OF ok2] rest
    have IH1: "\<forall>y \<in> set ys. ?Q y"
      and IH2: "\<forall>final. r = Inr final \<longrightarrow> table_ok final (?seen1 @ records_read env dest_ip ip_version max_hops timeout packet_size resolve_dns protocol port cs)"
      by simp_all
    have first: "?P (?shape c tbl1)"
    proof (intro exI conjI)
      show "c # cs = [] @ c # cs" by simp
      show "table_ok tbl1 (seen @ records_read env dest_ip ip_version max_hops timeout packet_size resolve_dns protocol port ([] @ [c]))"
        using ok1 by (simp add: records_read_def)
    qed (rule refl)
    show ?thesis
    proof (intro conjI ballI allI impI)
      fix y
      assume "y \<in> set (fst (mtr_cycles env target dest_ip ip_version count max_hops timeout packet_size resolve_dns protocol port tbl (c # cs)))"
      then have "y = ?shape c tbl1 \<or> y \<in> set ys"
        unfolding eq by simp
      then show "?P y"
      proof
        assume "y = ?shape c tbl1"
        with first show ?thesis by (simp only:)
      next
        assume "y \<in> set ys"
        with IH1 have "?Q y" by blast
        then show ?thesis by (rule lift)
      qed
    next
      fix final
      assume "snd (mtr_cycles env target dest_ip ip_version count max_hops timeout packet_size resolve_dns protocol port tbl (c # cs)) = Inr final"
      then have "r = Inr final" unfolding eq by simp
      with IH2 have "table_ok final (?seen1 @ records_read env dest_ip ip_version max_hops timeout packet_size resolve_dns protocol port cs)" by blast
      then show "table_ok final (seen @ records_read env dest_ip ip_version max_hops timeout packet_size resolve_dns protocol port (c # cs))" by (rule final_lift)
    qed
  next
    case (Raised e)
    show ?thesis
    proof (cases "\<exists>msg. e = TracerouteError msg")
      case True
      then obtain msg where e: "e = TracerouteError msg" by blast
      have eq: "mtr_cycles env target dest_ip ip_version count max_hops timeout packet_size resolve_dns protocol port tbl (c # cs) = mtr_cycles env target dest_ip ip_version count max_hops timeout packet_size resolve_dns protocol port tbl1 cs"
        using cons Raised e by (simp add: Let_def)
      from Cons.IH [OF ok1]
      have IH1: "\<forall>y \<in> set (fst (mtr_cycles env target dest_ip ip_version count max_hops timeout packet_size resolve_dns protocol port tbl1 cs)). ?Q y"
        and IH2: "\<forall>final. snd (mtr_cycles env target dest_ip ip_version count max_hops timeout packet_size resolve_dns protocol port tbl1 cs) = Inr final
                    \<longrightarrow> table_ok final (?seen1 @ records_read env dest_ip ip_version max_hops timeout packet_size resolve_dns protocol port cs)"
        by simp_all
      show ?thesis
      proof (intro conjI ballI allI impI)
        fix y
        assume "y \<in> set (fst (mtr_cycles env target dest_ip ip_version count max_hops timeout packet_size resolve_dns protocol port tbl (c # cs)))"
        with IH1 have "?Q y" unfolding eq by blast
        then show "?P y" by (rule lift)
      next
        fix final
        assume "snd (mtr_cycles env target dest_ip ip_version count max_hops timeout packet_size resolve_dns protocol port tbl (c # cs)) = Inr final"
        with IH2 have "table_ok final (?seen1 @ records_read env dest_ip ip_version max_hops timeout packet_size resolve_dns protocol port cs)" unfolding eq by blast
        then show "table_ok final (seen @ records_read env dest_ip ip_version max_hops timeout packet_size resolve_dns protocol port (c # cs))" by (rule final_lift)
      qed
    next
      case False
      then have "mtr_cycles env target dest_ip ip_version count max_hops timeout packet_size resolve_dns protocol port tbl (c # cs) = ([], Inl e)"
        using cons Raised by (cases e) (simp_all add: Let_def)
      then show ?thesis by simp
    qed
  qed
qed

lemma upt_split:
  assumes "[0..<n] = cs1 @ c # cs2"
  shows "cs1 @ [c] = [0..<Suc c] \<and> c < n"
proof -
  have len: "n = length cs1 + Suc (length cs2)"
    using arg_cong [OF assms, of length] by simp
  then have "length cs1 < n" by simp
  then have "[0..<n] ! length cs1 = length cs1" by simp
  moreover have "(cs1 @ c # cs2) ! length cs1 = c" by simp
  ultimately have c: "c = length cs1" using assms by simp
  have "take c [0..<n] = cs1" using assms c by simp
  moreover have "take c [0..<n] = [0..<c]" using len c by simp
  ultimately have "cs1 = [0..<c]" by simp
  then show ?thesis using len c by simp
qed

lemma set_snapshot: "set (snapshot tbl) = snd ` set tbl"
  by (simp add: snapshot_def)

lemma snapshot_empty: "snapshot tbl = [] \<longleftrightarrow> tbl = []"
proof -
  have "length (snapshot tbl) = length tbl" by (simp add: snapshot_def)
  then show ?thesis by (metis length_0_conv)
qed

lemma update_statistics_empty: "update_statistics sd n tbl = [] \<longleftrightarrow> tbl = []"
  by (simp add: update_statistics_def)

lemma snapshot_member:
  assumes "hop \<in> set (snapshot (update_statistics sd n tbl))"
  shows "\<exists>k h0. (k, h0) \<in> set tbl \<and> hop = hop_statistics sd n h0"
proof -
  from assms obtain k h where "(k, h) \<in> set (update_statistics sd n tbl)" "hop = h"
    by (auto simp add: set_snapshot)
  then obtain h0 where "(k, h0) \<in> set tbl" "hop = hop_statistics sd n h0"
    by (auto simp add: update_statistics_def)
  then show ?thesis by blast
qed

subsection \<open>The summaries of a run\<close>

text \<open>
  Every summary that \<^verbatim>\<open>mtr\<close> yields is the snapshot of a table that agrees with the records
  read in the cycles up to its \<^verbatim>\<open>cycles_complete\<close>, with the statistics taken against that
  number of cycles.
\<close>

lemma mtr_yield_shape:
  assumes "(summary, progress, hops) \<in> set (mr_yields (mtr env target count max_hops timeout packet_size resolve_dns protocol port ipv6_pref))"
  shows "\<exists>table. table_ok table (records_read env (sm_target_ip summary) (sm_ip_version summary) max_hops timeout
               packet_size resolve_dns (sm_protocol summary) port
               [0..<nat (sm_cycles_complete summary)])
           \<and> hops = snapshot (update_statistics (stdev env) (sm_cycles_complete summary) table)
           \<and> (hops \<noteq> [] \<longrightarrow> 1 \<le> sm_cycles_complete summary \<and> sm_cycles_complete summary \<le> count)"
proof -
  let ?p = "lower protocol"
  from assms have valid: "?p \<in> set [''icmp'', ''tcp'', ''udp'']"
    by (auto simp add: mtr_def Let_def split: if_splits)
  from assms valid obtain dest_ip ip_version where
    res: "mtr_resolve env target ipv6_pref = Inr (dest_ip, ip_version)"
    by (cases "mtr_resolve env target ipv6_pref") (auto simp add: mtr_def Let_def)
  let ?cycles = "mtr_cycles env target dest_ip ip_version count max_hops timeout packet_size
                   resolve_dns ?p port [] [0..<nat count]"
  obtain ys r where cyc: "?cycles = (ys, r)" by (cases ?cycles) auto
  have empty_ok: "table_ok [] []"
    by (simp add: table_ok_def first_ip_def)
  from mtr_cycles_yields [OF empty_ok, of env target dest_ip ip_version count max_hops timeout
      packet_size resolve_dns ?p port "[0..<nat count]"] cyc
  have in_loop: "\<forall>y \<in> set ys. \<exists>cs1 c cs2 table. [0..<nat count] = cs1 @ c # cs2
        \<and> table_ok table (records_read env dest_ip ip_version max_hops timeout packet_size
                             resolve_dns ?p port (cs1 @ [c]))
        \<and> y = (cycle_summary target dest_ip ip_version ?p count c
                  (snapshot (update_statistics (stdev env) (int c + 1) table)),
                (of_nat c + 1) / of_int count,
                snapshot (update_statistics (stdev env) (int c + 1) table))"
    and at_end: "\<forall>final. r = Inr final
        \<longrightarrow> table_ok final (records_read env dest_ip ip_version max_hops timeout packet_size
                               resolve_dns ?p port [0..<nat count])"
    by simp_all
  have loop_case: ?thesis if "(summary, progress, hops) \<in> set ys"
  proof -
    from that in_loop obtain cs1 c cs2 table where w: "[0..<nat count] = cs1 @ c # cs2"
      "table_ok table (records_read env dest_ip ip_version max_hops timeout packet_size
                             resolve_dns ?p port (cs1 @ [c]))"
      "(summary, progress, hops) = (cycle_summary target dest_ip ip_version ?p count c
                  (snapshot (update_statistics (stdev env) (int c + 1) table)),
                (of_nat c + 1) / of_int count,
                snapshot (update_statistics (stdev env) (int c + 1) table))"
      by blast
    from upt_split [OF w(1)] have c: "cs1 @ [c] = [0..<Suc c]" "c < nat count" by simp_all
    from w(3) have s: "sm_target_ip summary = dest_ip" "sm_ip_version summary = ip_version"
      "sm_protocol summary = ?p" "sm_cycles_complete summary = int c + 1"
      and h: "hops = snapshot (update_statistics (stdev env) (int c + 1) table)"
      by (simp_all add: cycle_summary_def)
    have "nat (sm_cycles_complete summary) = Suc c" using s(4) by simp
    with w(2) c(1) s have "table_ok table (records_read env (sm_target_ip summary) (sm_ip_version summary) max_hops timeout
               packet_size resolve_dns (sm_protocol summary) port
               [0..<nat (sm_cycles_complete summary)])" by simp
    moreover have "1 \<le> sm_cycles_complete summary \<and> sm_cycles_complete summary \<le> count"
      using s(4) c(2) by simp
    ultimately show ?thesis using h s(4) by auto
  qed
  show ?thesis
  proof (cases r)
    case (Inl e)
    with assms valid res cyc have "(summary, progress, hops) \<in> set ys"
      by (auto simp add: mtr_def Let_def)
    then show ?thesis by (rule loop_case)
  next
    case (Inr tbl)
    show ?thesis
    proof (cases "tbl \<noteq> [] \<and> count = 0")
      case True
      with assms valid res cyc Inr have "(summary, progress, hops) \<in> set ys"
        by (auto simp add: mtr_def Let_def final_statistics_def)
      then show ?thesis by (rule loop_case)
    next
      case False
      let ?final = "(final_summary target dest_ip ip_version ?p count
                       (update_statistics (stdev env) count tbl), 1::real,
                     snapshot (update_statistics (stdev env) count tbl))"
      from False assms valid res cyc Inr
      have "(summary, progress, hops) \<in> set ys \<or> (summary, progress, hops) = ?final"
        by (auto simp add: mtr_def Let_def final_statistics_def)
      then show ?thesis
      proof
        assume "(summary, progress, hops) \<in> set ys"
        then show ?thesis by (rule loop_case)
      next
        assume f: "(summary, progress, hops) = ?final"
        then have s: "sm_target_ip summary = dest_ip" "sm_ip_version summary = ip_version"
          "sm_protocol summary = ?p" "sm_cycles_complete summary = count"
          and h: "hops = snapshot (update_statistics (stdev env) count tbl)"
          by (simp_all add: final_summary_def)
        from at_end Inr have "table_ok tbl (records_read env dest_ip ip_version max_hops timeout
            packet_size resolve_dns ?p port [0..<nat count])" by simp
        with s have ok: "table_ok tbl (records_read env (sm_target_ip summary) (sm_ip_version summary) max_hops timeout
               packet_size resolve_dns (sm_protocol summary) port
               [0..<nat (sm_cycles_complete summary)])" by simp
        have "1 \<le> count" if "hops \<noteq> []"
        proof (rule ccontr)
          assume "\<not> 1 \<le> count"
          then have "[0..<nat count] = []" by simp
          with cyc Inr have "tbl = []" by simp
          with h that show False by (simp add: snapshot_def update_statistics_def)
        qed
        with ok h s(4) show ?thesis by auto
      qed
    qed
  qed
qed

lemma mtr_final_summary:
  assumes "mr_end (mtr env target count max_hops timeout packet_size resolve_dns protocol port ipv6_pref) = Returned"
  shows "mr_yields (mtr env target count max_hops timeout packet_size resolve_dns protocol port ipv6_pref) \<noteq> []
     \<and> sm_cycles_complete (fst (last (mr_yields (mtr env target count max_hops timeout packet_size resolve_dns protocol port ipv6_pref)))) = count
     \<and> fst (snd (last (mr_yields (mtr env target count max_hops timeout packet_size resolve_dns protocol port ipv6_pref)))) = 1"
  using assms
  by (auto simp add: mtr_def Let_def final_summary_def split: sum.splits prod.splits if_splits)

text \<open>
  Claim C3. Every summary that \<^verbatim>\<open>mtr\<close> yields with a hop in it comes after \<open>n\<close> completed
  cycles, \<open>1 \<le> n \<le> count\<close>, where \<open>n\<close> is its \<^verbatim>\<open>cycles_complete\<close>; each of its hops has
  \<^verbatim>\<open>loss_percent\<close> \<open>= 100 (n - len(delays)) / n\<close>, \<^verbatim>\<open>avg_delay\<close> the arithmetic mean of its
  delays (0 when it has none), and \<^verbatim>\<open>std_dev\<close> 0 when it has at most one delay. When the run
  returns, its last summary has \<open>n = count\<close>. Floats are read as reals.
\<close>

theorem mtr_summary_statistics:
  assumes "(summary, progress, hops) \<in> set (mr_yields (mtr env target count max_hops timeout packet_size resolve_dns protocol port ipv6_pref))"
    and "hop \<in> set hops"
  shows "1 \<le> sm_cycles_complete summary \<and> sm_cycles_complete summary \<le> count
       \<and> hs_loss_percent hop
           = 100 * (of_int (sm_cycles_complete summary) - of_nat (length (hs_delays hop)))
               / of_int (sm_cycles_complete summary)
       \<and> hs_avg_delay hop
           = (if hs_delays hop = [] then 0
              else sum_list (hs_delays hop) / of_nat (length (hs_delays hop)))
       \<and> (length (hs_delays hop) \<le> 1 \<longrightarrow> hs_std_dev hop = 0)
       \<and> (mr_end (mtr env target count max_hops timeout packet_size resolve_dns protocol port ipv6_pref) = Returned
            \<longrightarrow> sm_cycles_complete (fst (last (mr_yields (mtr env target count max_hops timeout packet_size resolve_dns protocol port ipv6_pref)))) = count)"
proof -
  from mtr_yield_shape [OF assms(1)] obtain table where
    h: "hops = snapshot (update_statistics (stdev env) (sm_cycles_complete summary) table)"
    and n: "hops \<noteq> [] \<longrightarrow> 1 \<le> sm_cycles_complete summary \<and> sm_cycles_complete summary \<le> count"
    by blast
  from assms(2) h obtain k h0 where
    hop: "hop = hop_statistics (stdev env) (sm_cycles_complete summary) h0"
    using snapshot_member by blast
  from assms(2) have "hops \<noteq> []" by auto
  with n have bounds: "1 \<le> sm_cycles_complete summary \<and> sm_cycles_complete summary \<le> count"
    by simp
  let ?n = "sm_cycles_complete summary"
  let ?h = "hop_statistics (stdev env) ?n h0"
  have delays: "hs_delays ?h = hs_delays h0"
    by (simp add: hop_statistics_identity)
  have vals: "hs_loss_percent ?h = 100 * (of_int ?n - of_nat (length (hs_delays ?h))) / of_int ?n
       \<and> hs_avg_delay ?h
           = (if hs_delays ?h = [] then 0 else sum_list (hs_delays ?h) / of_nat (length (hs_delays ?h)))
       \<and> (length (hs_delays ?h) \<le> 1 \<longrightarrow> hs_std_dev ?h = 0)"
    unfolding delays by (rule hop_statistics_values)
  have final: "mr_end (mtr env target count max_hops timeout packet_size resolve_dns protocol port ipv6_pref) = Returned
            \<longrightarrow> sm_cycles_complete (fst (last (mr_yields (mtr env target count max_hops timeout packet_size resolve_dns protocol port ipv6_pref)))) = count"
    using mtr_final_summary by blast
  show ?thesis
    unfolding hop using bounds vals final by blast
qed

theorem mtr_summary_statistics_witness:
  "mr_yields lossy_run ! 1 \<in> set (mr_yields lossy_run)
   \<and> hd (snd (snd (mr_yields lossy_run ! 1))) \<in> set (snd (snd (mr_yields lossy_run ! 1)))
   \<and> mr_end lossy_run = Returned
   \<and> sm_cycles_complete (fst (mr_yields lossy_run ! 1)) = 2
   \<and> hs_delays (hd (snd (snd (mr_yields lossy_run ! 1)))) = [12.34]
   \<and> hs_loss_percent (hd (snd (snd (mr_yields lossy_run ! 1)))) = 50
   \<and> hs_avg_delay (hd (snd (snd (mr_yields lossy_run ! 1)))) = 12.34
   \<and> hs_std_dev (hd (snd (snd (mr_yields lossy_run ! 1)))) = 0
   \<and> sm_cycles_complete (fst (last (mr_yields lossy_run))) = 3"
proof -
  let ?y = "mr_yields lossy_run ! 1"
  let ?hops = "snd (snd ?y)"
  have len: "1 < length (mr_yields lossy_run)" by code_simp
  have hne: "?hops \<noteq> []" by code_simp
  have returned: "mr_end lossy_run = Returned" by code_simp
  have n: "sm_cycles_complete (fst ?y) = 2" by code_simp
  have d: "hs_delays (hd ?hops) = [12.34]" by code_simp
  have mem: "(fst ?y, fst (snd ?y), ?hops) \<in> set (mr_yields lossy_run)"
    using len by simp
  have hmem: "hd ?hops \<in> set ?hops"
    using hne by simp
  show ?thesis
    using mtr_summary_statistics [OF mem [unfolded lossy_run_def] hmem [unfolded lossy_run_def]]
      len hne returned
    unfolding lossy_run_def [symmetric] n d by simp
qed




end
